theory Spec2Isabelle
  imports Complex_Main
begin

section \<open>Entries of arrays\<close>

text \<open>
  The entries of the program's arrays are numpy \<open>float64\<close> values. A value is a finite
  number, one of the two infinities or nan. The arithmetic on the special values is the one
  of IEEE 754: nan is absorbing, \<open>inf - inf\<close>, \<open>0 * inf\<close>, \<open>0 / 0\<close> and
  \<open>inf / inf\<close> are nan, a non-zero finite number divided by zero is an infinity. On finite
  numbers the arithmetic is the exact one of the real numbers: rounding, overflow to an
  infinity and the sign of zero are not modelled.
\<close>

datatype float64 = Fin real | PosInf | NegInf | NaN

instantiation float64 :: "{zero, one, plus, uminus, times, divide}"
begin

definition zero_float64 :: float64 where
  "zero_float64 = Fin 0"

definition one_float64 :: float64 where
  "one_float64 = Fin 1"

fun plus_float64 :: "float64 \<Rightarrow> float64 \<Rightarrow> float64" where
  "plus_float64 (Fin a) (Fin b) = Fin (a + b)"
| "plus_float64 NaN y = NaN"
| "plus_float64 x NaN = NaN"
| "plus_float64 PosInf NegInf = NaN"
| "plus_float64 NegInf PosInf = NaN"
| "plus_float64 PosInf y = PosInf"
| "plus_float64 x PosInf = PosInf"
| "plus_float64 NegInf y = NegInf"
| "plus_float64 x NegInf = NegInf"

fun uminus_float64 :: "float64 \<Rightarrow> float64" where
  "uminus_float64 (Fin a) = Fin (- a)"
| "uminus_float64 PosInf = NegInf"
| "uminus_float64 NegInf = PosInf"
| "uminus_float64 NaN = NaN"

fun times_float64 :: "float64 \<Rightarrow> float64 \<Rightarrow> float64" where
  "times_float64 (Fin a) (Fin b) = Fin (a * b)"
| "times_float64 NaN y = NaN"
| "times_float64 x NaN = NaN"
| "times_float64 PosInf (Fin b) = (if b = 0 then NaN else if 0 < b then PosInf else NegInf)"
| "times_float64 NegInf (Fin b) = (if b = 0 then NaN else if 0 < b then NegInf else PosInf)"
| "times_float64 (Fin a) PosInf = (if a = 0 then NaN else if 0 < a then PosInf else NegInf)"
| "times_float64 (Fin a) NegInf = (if a = 0 then NaN else if 0 < a then NegInf else PosInf)"
| "times_float64 PosInf PosInf = PosInf"
| "times_float64 PosInf NegInf = NegInf"
| "times_float64 NegInf PosInf = NegInf"
| "times_float64 NegInf NegInf = PosInf"

fun divide_float64 :: "float64 \<Rightarrow> float64 \<Rightarrow> float64" where
  "divide_float64 (Fin a) (Fin b) =
     (if b = 0 then (if a = 0 then NaN else if 0 < a then PosInf else NegInf) else Fin (a / b))"
| "divide_float64 NaN y = NaN"
| "divide_float64 x NaN = NaN"
| "divide_float64 (Fin a) PosInf = Fin 0"
| "divide_float64 (Fin a) NegInf = Fin 0"
| "divide_float64 PosInf (Fin b) = (if 0 \<le> b then PosInf else NegInf)"
| "divide_float64 NegInf (Fin b) = (if 0 \<le> b then NegInf else PosInf)"
| "divide_float64 PosInf y = NaN"
| "divide_float64 NegInf y = NaN"

instance ..

end

instantiation float64 :: "{minus, inverse}"
begin

definition minus_float64 :: "float64 \<Rightarrow> float64 \<Rightarrow> float64" where
  "minus_float64 x y = x + (- y)"

definition inverse_float64 :: "float64 \<Rightarrow> float64" where
  "inverse_float64 x = divide (Fin 1) x"

instance ..

end

lemma float64_sum_regroup: "x + y + z = x + (y + z)" for x y z :: float64
  by (cases x; cases y; cases z; simp)

lemma float64_sum_swap: "x + y = y + x" for x y :: float64
  by (cases x; cases y; simp)

lemma float64_sum_zero: "0 + x = x" for x :: float64
  by (cases x; simp add: zero_float64_def)

instance float64 :: comm_monoid_add
  by standard (rule float64_sum_regroup, rule float64_sum_swap, rule float64_sum_zero)

text \<open>The elementary functions and comparisons the program applies to entries:
  \<open>np.exp\<close>, \<open>np.log\<close>, \<open>np.maximum(x, 0)\<close>, \<open>x > 0\<close> and the order used by
  \<open>np.argmax\<close>.\<close>

fun np_exp :: "float64 \<Rightarrow> float64" where
  "np_exp (Fin a) = Fin (exp a)"
| "np_exp PosInf = PosInf"
| "np_exp NegInf = Fin 0"
| "np_exp NaN = NaN"

fun np_log :: "float64 \<Rightarrow> float64" where
  "np_log (Fin a) = (if 0 < a then Fin (ln a) else if a = 0 then NegInf else NaN)"
| "np_log PosInf = PosInf"
| "np_log NegInf = NaN"
| "np_log NaN = NaN"

fun maximum0 :: "float64 \<Rightarrow> float64" where
  "maximum0 (Fin a) = Fin (max a 0)"
| "maximum0 PosInf = PosInf"
| "maximum0 NegInf = Fin 0"
| "maximum0 NaN = NaN"

fun positive :: "float64 \<Rightarrow> bool" where
  "positive (Fin a) = (0 < a)"
| "positive PosInf = True"
| "positive NegInf = False"
| "positive NaN = False"

fun finite_value :: "float64 \<Rightarrow> bool" where
  "finite_value (Fin a) = True"
| "finite_value x = False"

fun less_value :: "float64 \<Rightarrow> float64 \<Rightarrow> bool" where
  "less_value (Fin a) (Fin b) = (a < b)"
| "less_value NaN y = False"
| "less_value x NaN = False"
| "less_value x NegInf = False"
| "less_value PosInf y = False"
| "less_value NegInf y = True"
| "less_value x PosInf = True"

section \<open>Dense two-dimensional arrays\<close>

text \<open>
  The program computes on numpy arrays of shape \<open>(r, c)\<close>; a column vector is an array of
  shape \<open>(n, 1)\<close>. An array is modelled by its column count and the list of its rows, so
  that the shape of an array without rows is kept.
\<close>

datatype ndarray = NDArray (ncols: nat) (rows: "float64 list list")

text \<open>The exceptions the program can raise. \<open>exit()\<close> raises \<open>SystemExit\<close>.\<close>

datatype error = SystemExit | ValueError | AttributeError | IndexError | TypeError
  | ZeroDivisionError

definition shape0 :: "ndarray \<Rightarrow> nat" where
  "shape0 a = length (rows a)"

definition shape1 :: "ndarray \<Rightarrow> nat" where
  "shape1 a = ncols a"

definition is_array :: "ndarray \<Rightarrow> bool" where
  "is_array a = list_all (\<lambda>r. length r = ncols a) (rows a)"

definition entry :: "ndarray \<Rightarrow> nat \<Rightarrow> nat \<Rightarrow> float64" where
  "entry a i j = rows a ! i ! j"

definition tabulate :: "nat \<Rightarrow> nat \<Rightarrow> (nat \<Rightarrow> nat \<Rightarrow> float64) \<Rightarrow> ndarray" where
  "tabulate r c f = NDArray c (map (\<lambda>i. map (\<lambda>j. f i j) [0..<c]) [0..<r])"

definition zeros :: "nat \<Rightarrow> nat \<Rightarrow> ndarray" where
  "zeros r c = tabulate r c (\<lambda>i j. 0)"

definition map_array :: "(float64 \<Rightarrow> float64) \<Rightarrow> ndarray \<Rightarrow> ndarray" where
  "map_array f a = NDArray (ncols a) (map (map f) (rows a))"

definition transpose_array :: "ndarray \<Rightarrow> ndarray" where
  "transpose_array a = tabulate (shape1 a) (shape0 a) (\<lambda>i j. entry a j i)"

text \<open>\<open>np.dot\<close> on two-dimensional arrays: the matrix product, a ValueError when the inner
  dimensions differ.\<close>

definition np_dot :: "ndarray \<Rightarrow> ndarray \<Rightarrow> error + ndarray" where
  "np_dot a b =
     (if shape1 a \<noteq> shape0 b then Inl ValueError
      else Inr (tabulate (shape0 a) (shape1 b)
                  (\<lambda>i j. \<Sum>k\<leftarrow>[0..<shape1 a]. entry a i k * entry b k j)))"

text \<open>Broadcasting of numpy's elementwise binary operations: two dimensions are compatible
  when they are equal or one of them is 1, and the dimension 1 is stretched.\<close>

definition broadcast_dim :: "nat \<Rightarrow> nat \<Rightarrow> nat option" where
  "broadcast_dim m n =
     (if m = n then Some m else if m = 1 then Some n else if n = 1 then Some m else None)"

definition bentry :: "ndarray \<Rightarrow> nat \<Rightarrow> nat \<Rightarrow> float64" where
  "bentry a i j = entry a (if shape0 a = 1 then 0 else i) (if shape1 a = 1 then 0 else j)"

definition np_binop :: "(float64 \<Rightarrow> float64 \<Rightarrow> float64) \<Rightarrow> ndarray \<Rightarrow> ndarray \<Rightarrow> error + ndarray" where
  "np_binop f a b =
     (case broadcast_dim (shape0 a) (shape0 b) of
        None \<Rightarrow> Inl ValueError
      | Some r \<Rightarrow>
          (case broadcast_dim (shape1 a) (shape1 b) of
             None \<Rightarrow> Inl ValueError
           | Some c \<Rightarrow> Inr (tabulate r c (\<lambda>i j. f (bentry a i j) (bentry b i j)))))"

text \<open>The in-place forms \<open>a += b\<close> and \<open>a -= b\<close> write the broadcast result into \<open>a\<close>,
  and raise a ValueError when its shape is not the shape of \<open>a\<close>.\<close>

definition np_inplace :: "(float64 \<Rightarrow> float64 \<Rightarrow> float64) \<Rightarrow> ndarray \<Rightarrow> ndarray \<Rightarrow> error + ndarray" where
  "np_inplace f a b =
     (case np_binop f a b of
        Inl e \<Rightarrow> Inl e
      | Inr c \<Rightarrow> if shape0 c = shape0 a \<and> shape1 c = shape1 a then Inr c else Inl ValueError)"

text \<open>Division of an array by a Python number, entry by entry; a zero divisor gives
  infinities and nan, not an exception.\<close>

definition np_div_scalar :: "ndarray \<Rightarrow> float64 \<Rightarrow> ndarray" where
  "np_div_scalar a m = map_array (\<lambda>x. x / m) a"

section \<open>The store of arrays and the console\<close>

text \<open>
  Arrays are Python objects: a field of a layer holds a reference to an array, two fields
  may hold the same reference, and \<open>+=\<close>, \<open>-=\<close> and \<open>a[:] = 0\<close> change the array
  behind a reference for every holder. The store is the list of all arrays ever created; a
  reference is an index into it. The console is the list of the lines printed so far, each
  kept as the values printed rather than their decimal rendering.
\<close>

type_synonym ref = nat

datatype printed =
    PrintText string
  | PrintInts nat nat
  | PrintEpochComplete nat
  | PrintEpochTest nat nat nat float64 float64

record world =
  arrays :: "ndarray list"
  stdout :: "printed list"

definition arr :: "world \<Rightarrow> ref \<Rightarrow> ndarray" where
  "arr w r = arrays w ! r"

definition push :: "ndarray \<Rightarrow> world \<Rightarrow> world" where
  "push a w = w\<lparr>arrays := arrays w @ [a]\<rparr>"

definition alloc :: "ndarray \<Rightarrow> world \<Rightarrow> ref \<times> world" where
  "alloc a w = (length (arrays w), push a w)"

definition assign :: "ref \<Rightarrow> ndarray \<Rightarrow> world \<Rightarrow> world" where
  "assign r a w = w\<lparr>arrays := (arrays w)[r := a]\<rparr>"

definition print :: "printed \<Rightarrow> world \<Rightarrow> world" where
  "print p w = w\<lparr>stdout := stdout w @ [p]\<rparr>"

section \<open>Layers\<close>

subsection \<open>Fully connected layer\<close>

record fc_layer =
  N :: nat
  N_p :: nat
  W :: ref
  dW :: ref
  B :: ref
  dB :: ref
  Z :: ref
  dW_sum :: ref
  dB_sum :: ref
  previous_layer_activations :: ref

text \<open>The constructor draws the weights and biases from \<open>np.random.randn\<close>; the draws,
  finite numbers, are the parameters \<open>gW\<close> and \<open>gB\<close>. Each field gets an array of its
  own.\<close>

definition new_fc_layer ::
  "nat \<Rightarrow> nat \<Rightarrow> (nat \<Rightarrow> nat \<Rightarrow> real) \<Rightarrow> (nat \<Rightarrow> nat \<Rightarrow> real) \<Rightarrow> world \<Rightarrow> fc_layer \<times> world" where
  "new_fc_layer layer_size previous_layer_size gW gB w0 =
     (let (rW, w1) = alloc (tabulate layer_size previous_layer_size (\<lambda>i j. Fin (gW i j) / Fin 10)) w0;
          (rdW, w2) = alloc (zeros layer_size previous_layer_size) w1;
          (rB, w3) = alloc (tabulate layer_size 1 (\<lambda>i j. Fin (gB i j) / Fin 10)) w2;
          (rdB, w4) = alloc (zeros layer_size 1) w3;
          (rZ, w5) = alloc (zeros layer_size 1) w4;
          (rdWs, w6) = alloc (zeros layer_size previous_layer_size) w5;
          (rdBs, w7) = alloc (zeros layer_size 1) w6;
          (rp, w8) = alloc (zeros previous_layer_size 1) w7
      in (\<lparr>N = layer_size, N_p = previous_layer_size, W = rW, dW = rdW, B = rB, dB = rdB,
           Z = rZ, dW_sum = rdWs, dB_sum = rdBs, previous_layer_activations = rp\<rparr>, w8))"

text \<open>A method returns its outcome (an error or the returned value), the object it was
  called on and the world, also when it fails: what was written before the failure stays
  written.\<close>

definition fc_forward_propagation ::
  "ref \<Rightarrow> fc_layer \<Rightarrow> world \<Rightarrow> (error + ref) \<times> fc_layer \<times> world" where
  "fc_forward_propagation x self w =
     (if shape1 (arr w (W self)) \<noteq> shape0 (arr w x) then
        (Inl SystemExit, self,
         print (PrintInts (shape1 (arr w (W self))) (shape0 (arr w x)))
           (print (PrintText ''mismatch between weight matrix columns and activation rows'') w))
      else
        (case np_dot (arr w (W self)) (arr w x) of
           Inl e \<Rightarrow> (Inl e, self, w)
         | Inr d \<Rightarrow>
             (case np_binop (+) d (arr w (B self)) of
                Inl e \<Rightarrow> (Inl e, self, w)
              | Inr z \<Rightarrow>
                  (let (rz, w1) = alloc z w;
                       self1 = self\<lparr>Z := rz\<rparr>;
                       self2 = self1\<lparr>previous_layer_activations := x\<rparr>
                   in (Inr (Z self2), self2, w1)))))"

definition fc_backward_propagation ::
  "ref \<Rightarrow> fc_layer \<Rightarrow> world \<Rightarrow> (error + ref) \<times> fc_layer \<times> world" where
  "fc_backward_propagation g self w =
     (case np_dot (arr w g) (transpose_array (arr w (previous_layer_activations self))) of
        Inl e \<Rightarrow> (Inl e, self, w)
      | Inr d \<Rightarrow>
          (let (rd, w1) = alloc d w; self1 = self\<lparr>dW := rd\<rparr> in
           case np_inplace (+) (arr w1 (dW_sum self1)) (arr w1 (dW self1)) of
             Inl e \<Rightarrow> (Inl e, self1, w1)
           | Inr s \<Rightarrow>
               (let w2 = assign (dW_sum self1) s w1; self2 = self1\<lparr>dB := g\<rparr> in
                case np_inplace (+) (arr w2 (dB_sum self2)) (arr w2 (dB self2)) of
                  Inl e \<Rightarrow> (Inl e, self2, w2)
                | Inr t \<Rightarrow>
                    (let w3 = assign (dB_sum self2) t w2 in
                     case np_dot (transpose_array (arr w3 (W self2))) (arr w3 g) of
                       Inl e \<Rightarrow> (Inl e, self2, w3)
                     | Inr u \<Rightarrow> (let (ru, w4) = alloc u w3 in (Inr ru, self2, w4))))))"

text \<open>\<open>eta*(s / mini_batch_size)\<close>: the size is a Python integer, the learning rate a
  Python float.\<close>

definition scaled_average :: "float64 \<Rightarrow> ndarray \<Rightarrow> nat \<Rightarrow> ndarray" where
  "scaled_average eta s mini_batch_size =
     map_array (\<lambda>x. eta * x) (np_div_scalar s (Fin (real mini_batch_size)))"

definition fc_update_parameters ::
  "nat \<Rightarrow> float64 \<Rightarrow> fc_layer \<Rightarrow> world \<Rightarrow> (error + unit) \<times> fc_layer \<times> world" where
  "fc_update_parameters mini_batch_size eta self w =
     (case np_inplace (-) (arr w (W self)) (scaled_average eta (arr w (dW_sum self)) mini_batch_size) of
        Inl e \<Rightarrow> (Inl e, self, w)
      | Inr newW \<Rightarrow>
          (let w1 = assign (W self) newW w in
           case np_inplace (-) (arr w1 (B self)) (scaled_average eta (arr w1 (dB_sum self)) mini_batch_size) of
             Inl e \<Rightarrow> (Inl e, self, w1)
           | Inr newB \<Rightarrow>
               (let w2 = assign (B self) newB w1;
                    w3 = assign (dW_sum self) (map_array (\<lambda>x. 0) (arr w2 (dW_sum self))) w2;
                    w4 = assign (dB_sum self) (map_array (\<lambda>x. 0) (arr w3 (dB_sum self))) w3
                in (Inr (), self, w4))))"

subsection \<open>Activation layers and the input layer\<close>

text \<open>The other layer classes own their size and one array, \<open>activation\<close>. The input
  layer has no propagation methods.\<close>

datatype layer =
    FullyConnectedLayer fc_layer
  | SigmoidLayer nat ref
  | ReluLayer nat ref
  | SoftmaxLayer nat ref
  | InputLayer nat ref

definition new_sigmoid_layer :: "nat \<Rightarrow> world \<Rightarrow> layer \<times> world" where
  "new_sigmoid_layer layer_size w = (let (r, w1) = alloc (zeros layer_size 1) w in (SigmoidLayer layer_size r, w1))"

definition new_relu_layer :: "nat \<Rightarrow> world \<Rightarrow> layer \<times> world" where
  "new_relu_layer layer_size w = (let (r, w1) = alloc (zeros layer_size 1) w in (ReluLayer layer_size r, w1))"

definition new_softmax_layer :: "nat \<Rightarrow> world \<Rightarrow> layer \<times> world" where
  "new_softmax_layer layer_size w = (let (r, w1) = alloc (zeros layer_size 1) w in (SoftmaxLayer layer_size r, w1))"

definition new_input_layer :: "nat \<Rightarrow> world \<Rightarrow> layer \<times> world" where
  "new_input_layer layer_size w = (let (r, w1) = alloc (zeros layer_size 1) w in (InputLayer layer_size r, w1))"

definition sigmoid_forward :: "ndarray \<Rightarrow> ndarray" where
  "sigmoid_forward weighted_sum = map_array (\<lambda>x. 1 / (1 + np_exp (- x))) weighted_sum"

definition sigmoid_prime :: "ndarray \<Rightarrow> ndarray" where
  "sigmoid_prime activation = map_array (\<lambda>a. a * (1 - a)) activation"

definition relu_forward :: "ndarray \<Rightarrow> ndarray" where
  "relu_forward weighted_sum = map_array maximum0 weighted_sum"

text \<open>\<open>activation > 0\<close> is an array of booleans; in the product with the gradient True
  counts as 1 and False as 0.\<close>

definition relu_prime :: "ndarray \<Rightarrow> ndarray" where
  "relu_prime activation = map_array (\<lambda>a. if positive a then 1 else 0) activation"

definition softmax_forward :: "ndarray \<Rightarrow> ndarray" where
  "softmax_forward weighted_sum =
     (let e = map_array np_exp weighted_sum; s = sum_list (concat (rows e))
      in map_array (\<lambda>x. x / s) e)"

fun forward_propagation :: "ref \<Rightarrow> layer \<Rightarrow> world \<Rightarrow> (error + ref) \<times> layer \<times> world" where
  "forward_propagation x (FullyConnectedLayer self) w =
     (case fc_forward_propagation x self w of (res, self', w') \<Rightarrow> (res, FullyConnectedLayer self', w'))"
| "forward_propagation x (SigmoidLayer n a) w =
     (let (r, w1) = alloc (sigmoid_forward (arr w x)) w in (Inr r, SigmoidLayer n r, w1))"
| "forward_propagation x (ReluLayer n a) w =
     (let (r, w1) = alloc (relu_forward (arr w x)) w in (Inr r, ReluLayer n r, w1))"
| "forward_propagation x (SoftmaxLayer n a) w =
     (let (r, w1) = alloc (softmax_forward (arr w x)) w in (Inr r, SoftmaxLayer n r, w1))"
| "forward_propagation x (InputLayer n a) w = (Inl AttributeError, InputLayer n a, w)"

fun backward_propagation :: "ref \<Rightarrow> layer \<Rightarrow> world \<Rightarrow> (error + ref) \<times> layer \<times> world" where
  "backward_propagation g (FullyConnectedLayer self) w =
     (case fc_backward_propagation g self w of (res, self', w') \<Rightarrow> (res, FullyConnectedLayer self', w'))"
| "backward_propagation g (SigmoidLayer n a) w =
     (case np_binop (*) (sigmoid_prime (arr w a)) (arr w g) of
        Inl e \<Rightarrow> (Inl e, SigmoidLayer n a, w)
      | Inr d \<Rightarrow> (let (r, w1) = alloc d w in (Inr r, SigmoidLayer n a, w1)))"
| "backward_propagation g (ReluLayer n a) w =
     (case np_binop (*) (relu_prime (arr w a)) (arr w g) of
        Inl e \<Rightarrow> (Inl e, ReluLayer n a, w)
      | Inr d \<Rightarrow> (let (r, w1) = alloc d w in (Inr r, ReluLayer n a, w1)))"
| "backward_propagation g (SoftmaxLayer n a) w = (Inr g, SoftmaxLayer n a, w)"
| "backward_propagation g (InputLayer n a) w = (Inl AttributeError, InputLayer n a, w)"

fun update_parameters :: "nat \<Rightarrow> float64 \<Rightarrow> layer \<Rightarrow> world \<Rightarrow> (error + unit) \<times> layer \<times> world" where
  "update_parameters mini_batch_size eta (FullyConnectedLayer self) w =
     (case fc_update_parameters mini_batch_size eta self w of
        (res, self', w') \<Rightarrow> (res, FullyConnectedLayer self', w'))"
| "update_parameters mini_batch_size eta l w = (Inr (), l, w)"

text \<open>Reading and writing the attribute \<open>activation\<close>. A fully connected layer has no such
  attribute: reading it raises AttributeError. The driver writes it only on the layer at
  index 0, which the constructor of the network makes an input layer; on a fully connected
  layer the write is modelled as leaving the declared fields as they are.\<close>

fun get_activation :: "layer \<Rightarrow> error + ref" where
  "get_activation (FullyConnectedLayer self) = Inl AttributeError"
| "get_activation (SigmoidLayer n a) = Inr a"
| "get_activation (ReluLayer n a) = Inr a"
| "get_activation (SoftmaxLayer n a) = Inr a"
| "get_activation (InputLayer n a) = Inr a"

fun set_activation :: "ref \<Rightarrow> layer \<Rightarrow> layer" where
  "set_activation x (FullyConnectedLayer self) = FullyConnectedLayer self"
| "set_activation x (SigmoidLayer n a) = SigmoidLayer n x"
| "set_activation x (ReluLayer n a) = ReluLayer n x"
| "set_activation x (SoftmaxLayer n a) = SoftmaxLayer n x"
| "set_activation x (InputLayer n a) = InputLayer n x"

fun layer_N :: "layer \<Rightarrow> nat" where
  "layer_N (FullyConnectedLayer self) = N self"
| "layer_N (SigmoidLayer n a) = n"
| "layer_N (ReluLayer n a) = n"
| "layer_N (SoftmaxLayer n a) = n"
| "layer_N (InputLayer n a) = n"

section \<open>Cost functions\<close>

definition quadratic_cost :: "ndarray \<Rightarrow> ndarray \<Rightarrow> error + float64" where
  "quadratic_cost expected_output activation =
     (case np_binop (-) expected_output activation of
        Inl e \<Rightarrow> Inl e
      | Inr d \<Rightarrow> Inr (Fin (1 / 2) * sum_list (concat (rows (map_array (\<lambda>x. x * x) d)))))"

definition quadratic_cost_prime :: "ndarray \<Rightarrow> ndarray \<Rightarrow> error + ndarray" where
  "quadratic_cost_prime expected_output activation = np_binop (-) activation expected_output"

definition cross_entropy_cost :: "ndarray \<Rightarrow> ndarray \<Rightarrow> error + float64" where
  "cross_entropy_cost expected_output activation =
     (case np_binop (*) expected_output (map_array np_log activation) of
        Inl e \<Rightarrow> Inl e
      | Inr p \<Rightarrow> Inr (- sum_list (concat (rows p))))"

definition cross_entropy_cost_prime_SM :: "ndarray \<Rightarrow> ndarray \<Rightarrow> error + ndarray" where
  "cross_entropy_cost_prime_SM expected_output activation = np_binop (-) activation expected_output"

section \<open>The network driver\<close>

text \<open>The cost function and its derivative are callables given to the constructor. They
  are modelled as functions of the two arrays' values that return a number, respectively a
  new array, or raise.\<close>

record network =
  cost :: "ndarray \<Rightarrow> ndarray \<Rightarrow> error + float64"
  cost_prime :: "ndarray \<Rightarrow> ndarray \<Rightarrow> error + ndarray"
  cost_points :: "float64 list"
  cost_points_test :: "float64 list"
  is_SM_CE :: bool
  layers :: "layer list"
  prev_layer_size :: nat

definition new_network ::
  "nat \<Rightarrow> (ndarray \<Rightarrow> ndarray \<Rightarrow> error + float64) \<Rightarrow> (ndarray \<Rightarrow> ndarray \<Rightarrow> error + ndarray) \<Rightarrow> bool
     \<Rightarrow> world \<Rightarrow> network \<times> world" where
  "new_network input_size c c_prime sm_ce w =
     (let (IL, w1) = new_input_layer input_size w
      in (\<lparr>cost = c, cost_prime = c_prime, cost_points = [], cost_points_test = [],
           is_SM_CE = sm_ce, layers = [] @ [IL], prev_layer_size = input_size\<rparr>, w1))"

definition add_fc_layer ::
  "nat \<Rightarrow> (nat \<Rightarrow> nat \<Rightarrow> real) \<Rightarrow> (nat \<Rightarrow> nat \<Rightarrow> real) \<Rightarrow> network \<Rightarrow> world \<Rightarrow> network \<times> world" where
  "add_fc_layer layer_size gW gB self w =
     (let (l, w1) = new_fc_layer layer_size (prev_layer_size self) gW gB w
      in (self\<lparr>layers := layers self @ [FullyConnectedLayer l], prev_layer_size := layer_size\<rparr>, w1))"

definition add_sigmoid_layer :: "nat \<Rightarrow> network \<Rightarrow> world \<Rightarrow> network \<times> world" where
  "add_sigmoid_layer layer_size self w =
     (let (l, w1) = new_sigmoid_layer layer_size w
      in (self\<lparr>layers := layers self @ [l], prev_layer_size := layer_size\<rparr>, w1))"

definition add_relu_layer :: "nat \<Rightarrow> network \<Rightarrow> world \<Rightarrow> network \<times> world" where
  "add_relu_layer layer_size self w =
     (let (l, w1) = new_relu_layer layer_size w
      in (self\<lparr>layers := layers self @ [l], prev_layer_size := layer_size\<rparr>, w1))"

definition add_softmax_layer :: "nat \<Rightarrow> network \<Rightarrow> world \<Rightarrow> network \<times> world" where
  "add_softmax_layer layer_size self w =
     (let (l, w1) = new_softmax_layer layer_size w
      in (self\<lparr>layers := layers self @ [l], prev_layer_size := layer_size\<rparr>, w1))"

text \<open>The loops of the driver run over layer indices. Calling a method on
  \<open>self.layers[k]\<close> changes the layer object at position \<open>k\<close>.\<close>

fun forward_loop :: "nat list \<Rightarrow> ref \<Rightarrow> layer list \<Rightarrow> world \<Rightarrow> (error + ref) \<times> layer list \<times> world" where
  "forward_loop [] output ls w = (Inr output, ls, w)"
| "forward_loop (k # ks) output ls w =
     (if k < length ls then
        (case forward_propagation output (ls ! k) w of
           (Inl e, l', w') \<Rightarrow> (Inl e, ls[k := l'], w')
         | (Inr output', l', w') \<Rightarrow> forward_loop ks output' (ls[k := l']) w')
      else (Inl IndexError, ls, w))"

definition forward_pass :: "ref \<Rightarrow> network \<Rightarrow> world \<Rightarrow> (error + ref) \<times> network \<times> world" where
  "forward_pass input_data self w =
     (case layers self of
        [] \<Rightarrow> (Inl IndexError, self, w)
      | l0 # rest \<Rightarrow>
          (let ls = set_activation input_data l0 # rest in
           case forward_loop [1..<length ls] input_data ls w of
             (res, ls', w') \<Rightarrow> (res, self\<lparr>layers := ls'\<rparr>, w')))"

text \<open>\<open>self.layers[-layer]\<close> is the layer at index \<open>len(self.layers) - layer\<close>.\<close>

fun backward_loop :: "nat list \<Rightarrow> ref \<Rightarrow> layer list \<Rightarrow> world \<Rightarrow> (error + ref) \<times> layer list \<times> world" where
  "backward_loop [] g ls w = (Inr g, ls, w)"
| "backward_loop (k # ks) g ls w =
     (if 0 < k \<and> k \<le> length ls then
        (case backward_propagation g (ls ! (length ls - k)) w of
           (Inl e, l', w') \<Rightarrow> (Inl e, ls[length ls - k := l'], w')
         | (Inr g', l', w') \<Rightarrow> backward_loop ks g' (ls[length ls - k := l']) w')
      else (Inl IndexError, ls, w))"

definition first_upstream_gradient :: "ref \<Rightarrow> network \<Rightarrow> world \<Rightarrow> (error + ref) \<times> world" where
  "first_upstream_gradient expected_output self w =
     (if layers self = [] then (Inl IndexError, w)
      else (case get_activation (last (layers self)) of
              Inl e \<Rightarrow> (Inl e, w)
            | Inr a \<Rightarrow>
                (case cost_prime self (arr w expected_output) (arr w a) of
                   Inl e \<Rightarrow> (Inl e, w)
                 | Inr d \<Rightarrow> (let (r, w1) = alloc d w in (Inr r, w1)))))"

definition backward_pass :: "ref \<Rightarrow> network \<Rightarrow> world \<Rightarrow> (error + unit) \<times> network \<times> world" where
  "backward_pass expected_output self w =
     (if is_SM_CE self = False then
        (case first_upstream_gradient expected_output self w of
           (Inl e, w1) \<Rightarrow> (Inl e, self, w1)
         | (Inr upstream_gradient, w1) \<Rightarrow>
             (case backward_loop [1..<length (layers self)] upstream_gradient (layers self) w1 of
                (Inl e, ls', w') \<Rightarrow> (Inl e, self\<lparr>layers := ls'\<rparr>, w')
              | (Inr g, ls', w') \<Rightarrow> (Inr (), self\<lparr>layers := ls'\<rparr>, w')))
      else
        (case first_upstream_gradient expected_output self w of
           (Inl e, w1) \<Rightarrow> (Inl e, self, w1)
         | (Inr upstream_gradient, w1) \<Rightarrow>
             (case backward_loop [2..<length (layers self)] upstream_gradient (layers self) w1 of
                (Inl e, ls', w') \<Rightarrow> (Inl e, self\<lparr>layers := ls'\<rparr>, w')
              | (Inr g, ls', w') \<Rightarrow> (Inr (), self\<lparr>layers := ls'\<rparr>, w'))))"

type_synonym sample = "ref \<times> ref"

fun samples_loop :: "sample list \<Rightarrow> network \<Rightarrow> world \<Rightarrow> (error + unit) \<times> network \<times> world" where
  "samples_loop [] self w = (Inr (), self, w)"
| "samples_loop ((input, output) # rest) self w =
     (case forward_pass input self w of
        (Inl e, self1, w1) \<Rightarrow> (Inl e, self1, w1)
      | (Inr a, self1, w1) \<Rightarrow>
          (case backward_pass output self1 w1 of
             (Inl e, self2, w2) \<Rightarrow> (Inl e, self2, w2)
           | (Inr u, self2, w2) \<Rightarrow> samples_loop rest self2 w2))"

fun update_loop :: "nat list \<Rightarrow> nat \<Rightarrow> float64 \<Rightarrow> layer list \<Rightarrow> world \<Rightarrow> (error + unit) \<times> layer list \<times> world" where
  "update_loop [] m eta ls w = (Inr (), ls, w)"
| "update_loop (k # ks) m eta ls w =
     (if k < length ls then
        (case update_parameters m eta (ls ! k) w of
           (Inl e, l', w') \<Rightarrow> (Inl e, ls[k := l'], w')
         | (Inr u, l', w') \<Rightarrow> update_loop ks m eta (ls[k := l']) w')
      else (Inl IndexError, ls, w))"

definition mini_batch_pass :: "float64 \<Rightarrow> sample list \<Rightarrow> network \<Rightarrow> world \<Rightarrow> (error + unit) \<times> network \<times> world" where
  "mini_batch_pass eta mini_batch self w =
     (case samples_loop mini_batch self w of
        (Inl e, self1, w1) \<Rightarrow> (Inl e, self1, w1)
      | (Inr u, self1, w1) \<Rightarrow>
          (case update_loop [1..<length (layers self1)] (length mini_batch) eta (layers self1) w1 of
             (res, ls', w') \<Rightarrow> (res, self1\<lparr>layers := ls'\<rparr>, w')))"

text \<open>\<open>range(0, n, step)\<close> and the list of slices \<open>training_data[k:k+mini_batch_size]\<close>.\<close>

definition range_step :: "nat \<Rightarrow> int \<Rightarrow> error + nat list" where
  "range_step n step =
     (if step = 0 then Inl ValueError
      else if step < 0 then Inr []
      else Inr (map (\<lambda>i. i * nat step) [0..<(n + nat step - 1) div nat step]))"

definition mini_batches :: "sample list \<Rightarrow> nat \<Rightarrow> int \<Rightarrow> error + sample list list" where
  "mini_batches training_data n mini_batch_size =
     (case range_step n mini_batch_size of
        Inl e \<Rightarrow> Inl e
      | Inr ks \<Rightarrow> Inr (map (\<lambda>k. take (nat mini_batch_size) (drop k training_data)) ks))"

fun batches_loop :: "float64 \<Rightarrow> sample list list \<Rightarrow> network \<Rightarrow> world \<Rightarrow> (error + unit) \<times> network \<times> world" where
  "batches_loop eta [] self w = (Inr (), self, w)"
| "batches_loop eta (mini_batch # rest) self w =
     (case mini_batch_pass eta mini_batch self w of
        (Inl e, self1, w1) \<Rightarrow> (Inl e, self1, w1)
      | (Inr u, self1, w1) \<Rightarrow> batches_loop eta rest self1 w1)"

fun cost_loop :: "sample list \<Rightarrow> float64 \<Rightarrow> network \<Rightarrow> world \<Rightarrow> (error + float64) \<times> network \<times> world" where
  "cost_loop [] cost_amount self w = (Inr cost_amount, self, w)"
| "cost_loop ((input, output) # rest) cost_amount self w =
     (case forward_pass input self w of
        (Inl e, self1, w1) \<Rightarrow> (Inl e, self1, w1)
      | (Inr activation, self1, w1) \<Rightarrow>
          (case cost self1 (arr w1 output) (arr w1 activation) of
             Inl e \<Rightarrow> (Inl e, self1, w1)
           | Inr c \<Rightarrow> cost_loop rest (cost_amount + c) self1 w1))"

text \<open>\<open>np.argmax\<close>: the first position of the largest entry of the flattened array, the
  first position of a nan when there is one. \<open>argmax_from i best bv xs\<close> scans the entries
  \<open>xs\<close>, which start at position \<open>i\<close>, with the best position and value so far.\<close>

primrec argmax_from :: "nat \<Rightarrow> nat \<Rightarrow> float64 \<Rightarrow> float64 list \<Rightarrow> nat" where
  "argmax_from i best bv [] = best"
| "argmax_from i best bv (x # xs) =
     (if bv = NaN then best
      else if x = NaN \<or> less_value bv x then argmax_from (Suc i) i x xs
      else argmax_from (Suc i) best bv xs)"

definition np_argmax :: "ndarray \<Rightarrow> error + nat" where
  "np_argmax a =
     (case concat (rows a) of
        [] \<Rightarrow> Inl ValueError
      | x # xs \<Rightarrow> Inr (argmax_from 1 0 x xs))"

fun test_results :: "sample list \<Rightarrow> network \<Rightarrow> world \<Rightarrow> (error + (nat \<times> ref) list) \<times> network \<times> world" where
  "test_results [] self w = (Inr [], self, w)"
| "test_results ((input, output) # rest) self w =
     (case forward_pass input self w of
        (Inl e, self1, w1) \<Rightarrow> (Inl e, self1, w1)
      | (Inr a, self1, w1) \<Rightarrow>
          (case np_argmax (arr w1 a) of
             Inl e \<Rightarrow> (Inl e, self1, w1)
           | Inr max_index \<Rightarrow>
               (case test_results rest self1 w1 of
                  (Inl e, self2, w2) \<Rightarrow> (Inl e, self2, w2)
                | (Inr rs, self2, w2) \<Rightarrow> (Inr ((max_index, output) # rs), self2, w2))))"

text \<open>\<open>int(output[max_index] == 1)\<close>: the row \<open>max_index\<close> of the expected output must
  exist and have exactly one entry.\<close>

fun count_correct :: "(nat \<times> ref) list \<Rightarrow> world \<Rightarrow> error + nat" where
  "count_correct [] w = Inr 0"
| "count_correct ((max_index, output) # rest) w =
     (if shape0 (arr w output) \<le> max_index then Inl IndexError
      else if length (rows (arr w output) ! max_index) \<noteq> 1 then Inl TypeError
      else (case count_correct rest w of
              Inl e \<Rightarrow> Inl e
            | Inr c \<Rightarrow> Inr ((if rows (arr w output) ! max_index ! 0 = 1 then 1 else 0) + c)))"

definition test_network :: "sample list \<Rightarrow> network \<Rightarrow> world \<Rightarrow> (error + nat) \<times> network \<times> world" where
  "test_network test_data self w =
     (case test_results test_data self w of
        (Inl e, self1, w1) \<Rightarrow> (Inl e, self1, w1)
      | (Inr rs, self1, w1) \<Rightarrow> (count_correct rs w1, self1, w1))"

text \<open>
  One pass of the main training loop, for epoch \<open>j\<close>. \<open>random.shuffle\<close> reorders the
  caller's list in place; the reordering applied in epoch \<open>j\<close> is the parameter
  \<open>shuffle j\<close>. \<open>n\<close> is the length taken before the loop. An absent and an empty
  \<open>test_data\<close> both count as false. The plot drawn after the last epoch is left out.
\<close>

definition epoch ::
  "(nat \<Rightarrow> sample list \<Rightarrow> sample list) \<Rightarrow> nat \<Rightarrow> nat \<Rightarrow> int \<Rightarrow> float64 \<Rightarrow> sample list option
     \<Rightarrow> sample list \<Rightarrow> network \<Rightarrow> world \<Rightarrow> (error + unit) \<times> sample list \<times> network \<times> world" where
  "epoch shuffle j n mini_batch_size eta test_data training_data0 self w =
     (let training_data = shuffle j training_data0 in
      case mini_batches training_data n mini_batch_size of
        Inl e \<Rightarrow> (Inl e, training_data, self, w)
      | Inr bs \<Rightarrow>
          (case batches_loop eta bs self w of
             (Inl e, self1, w1) \<Rightarrow> (Inl e, training_data, self1, w1)
           | (Inr u, self1, w1) \<Rightarrow>
               (case cost_loop training_data 0 self1 w1 of
                  (Inl e, self2, w2) \<Rightarrow> (Inl e, training_data, self2, w2)
                | (Inr cost_amount, self2, w2) \<Rightarrow>
                    if length training_data = 0 then (Inl ZeroDivisionError, training_data, self2, w2)
                    else
                      (let self3 = self2\<lparr>cost_points :=
                             cost_points self2 @ [cost_amount / Fin (real (length training_data))]\<rparr>
                       in case test_data of
                            None \<Rightarrow> (Inr (), training_data, self3, print (PrintEpochComplete j) w2)
                          | Some [] \<Rightarrow> (Inr (), training_data, self3, print (PrintEpochComplete j) w2)
                          | Some (t # ts) \<Rightarrow>
                              (case cost_loop (t # ts) 0 self3 w2 of
                                 (Inl e, self4, w4) \<Rightarrow> (Inl e, training_data, self4, w4)
                               | (Inr cost_amount_test, self4, w4) \<Rightarrow>
                                   (let self5 = self4\<lparr>cost_points_test :=
                                          cost_points_test self4 @ [cost_amount_test / Fin (real (length (t # ts)))]\<rparr>
                                    in case test_network (t # ts) self5 w4 of
                                         (Inl e, self6, w6) \<Rightarrow> (Inl e, training_data, self6, w6)
                                       | (Inr correct, self6, w6) \<Rightarrow>
                                           (Inr (), training_data, self6,
                                            print (PrintEpochTest j correct (length (t # ts))
                                                     (cost_amount / Fin (real (length training_data)))
                                                     (cost_amount_test / Fin (real (length (t # ts))))) w6)))))))"

fun epochs_loop ::
  "(nat \<Rightarrow> sample list \<Rightarrow> sample list) \<Rightarrow> nat list \<Rightarrow> nat \<Rightarrow> int \<Rightarrow> float64 \<Rightarrow> sample list option
     \<Rightarrow> sample list \<Rightarrow> network \<Rightarrow> world \<Rightarrow> (error + unit) \<times> sample list \<times> network \<times> world" where
  "epochs_loop shuffle [] n mini_batch_size eta test_data training_data self w =
     (Inr (), training_data, self, w)"
| "epochs_loop shuffle (j # js) n mini_batch_size eta test_data training_data self w =
     (case epoch shuffle j n mini_batch_size eta test_data training_data self w of
        (Inl e, training_data1, self1, w1) \<Rightarrow> (Inl e, training_data1, self1, w1)
      | (Inr u, training_data1, self1, w1) \<Rightarrow>
          epochs_loop shuffle js n mini_batch_size eta test_data training_data1 self1 w1)"

definition stochastic_gradient_descent ::
  "(nat \<Rightarrow> sample list \<Rightarrow> sample list) \<Rightarrow> sample list \<Rightarrow> int \<Rightarrow> int \<Rightarrow> float64 \<Rightarrow> sample list option
     \<Rightarrow> network \<Rightarrow> world \<Rightarrow> (error + unit) \<times> sample list \<times> network \<times> world" where
  "stochastic_gradient_descent shuffle training_data epochs mini_batch_size eta test_data self w =
     epochs_loop shuffle [0..<nat epochs] (length training_data) mini_batch_size eta test_data
       training_data self w"

section \<open>Exceptions and handlers\<close>




section \<open>Notions of the specification\<close>

text \<open>The matrix expressions of the specification, entry by entry: the weighted sum
  \<open>W\<cdot>x + B\<close> of a column vector, the outer product of two column vectors, the product
  of the transposed weights with a column vector, the sum of two arrays of one shape and
  one step of gradient descent on a parameter array.\<close>

definition weighted_sum :: "ndarray \<Rightarrow> ndarray \<Rightarrow> ndarray \<Rightarrow> ndarray" where
  "weighted_sum Wm x Bm =
     tabulate (shape0 Wm) 1
       (\<lambda>i j. (\<Sum>k\<leftarrow>[0..<shape1 Wm]. entry Wm i k * entry x k 0) + entry Bm i 0)"

definition outer_product :: "ndarray \<Rightarrow> ndarray \<Rightarrow> ndarray" where
  "outer_product g a = tabulate (shape0 g) (shape0 a) (\<lambda>i j. entry g i 0 * entry a j 0)"

definition transposed_product :: "ndarray \<Rightarrow> ndarray \<Rightarrow> ndarray" where
  "transposed_product Wm g =
     tabulate (shape1 Wm) 1 (\<lambda>i j. \<Sum>k\<leftarrow>[0..<shape0 Wm]. entry Wm k i * entry g k 0)"

definition array_sum :: "ndarray \<Rightarrow> ndarray \<Rightarrow> ndarray" where
  "array_sum a b = tabulate (shape0 a) (shape1 a) (\<lambda>i j. entry a i j + entry b i j)"

definition descent_step :: "float64 \<Rightarrow> nat \<Rightarrow> ndarray \<Rightarrow> ndarray \<Rightarrow> ndarray" where
  "descent_step eta m p s =
     tabulate (shape0 p) (shape1 p) (\<lambda>i j. entry p i j - eta * (entry s i j / Fin (real m)))"

text \<open>
  The state of a fully connected layer that its constructor sets up and its methods keep:
  every field refers to an existing array, the weights, the biases and the two running
  sums are four different arrays of the shapes \<open>N \<times> N_p\<close> and \<open>N \<times> 1\<close>, and none of the
  other four fields refers to one of them.
\<close>

definition params :: "fc_layer \<Rightarrow> ref list" where
  "params self = [W self, B self, dW_sum self, dB_sum self]"

definition caches :: "fc_layer \<Rightarrow> ref list" where
  "caches self = [dW self, dB self, Z self, previous_layer_activations self]"

definition has_shape :: "ndarray \<Rightarrow> nat \<Rightarrow> nat \<Rightarrow> bool" where
  "has_shape a r c = (is_array a \<and> shape0 a = r \<and> shape1 a = c)"

definition fc_params_ok :: "fc_layer \<Rightarrow> world \<Rightarrow> bool" where
  "fc_params_ok self w =
     (list_all (\<lambda>r. r < length (arrays w)) (params self)
      \<and> distinct (params self)
      \<and> has_shape (arr w (W self)) (N self) (N_p self)
      \<and> has_shape (arr w (dW_sum self)) (N self) (N_p self)
      \<and> has_shape (arr w (B self)) (N self) 1
      \<and> has_shape (arr w (dB_sum self)) (N self) 1)"

definition fc_ok :: "fc_layer \<Rightarrow> world \<Rightarrow> bool" where
  "fc_ok self w =
     (fc_params_ok self w
      \<and> list_all (\<lambda>r. r < length (arrays w)) (caches self)
      \<and> list_all (\<lambda>r. r \<notin> set (params self)) (caches self))"

text \<open>
  The networks the construction interface can produce: the constructor, followed by any
  sequence of the four \<open>add\<close> calls with any arguments.
\<close>

inductive built :: "network \<Rightarrow> world \<Rightarrow> bool" where
  built_new:
    "new_network input_size c c_prime sm_ce w0 = (self, w) \<Longrightarrow> built self w"
| built_fc:
    "built self0 w0 \<Longrightarrow> add_fc_layer layer_size gW gB self0 w0 = (self, w) \<Longrightarrow> built self w"
| built_sigmoid:
    "built self0 w0 \<Longrightarrow> add_sigmoid_layer layer_size self0 w0 = (self, w) \<Longrightarrow> built self w"
| built_relu:
    "built self0 w0 \<Longrightarrow> add_relu_layer layer_size self0 w0 = (self, w) \<Longrightarrow> built self w"
| built_softmax:
    "built self0 w0 \<Longrightarrow> add_softmax_layer layer_size self0 w0 = (self, w) \<Longrightarrow> built self w"

text \<open>What the construction interface keeps true of a network: the first layer is the
  input layer, \<open>prev_layer_size\<close> is the size of the last layer, and the declared input
  width \<open>N_p\<close> of every fully connected layer is the size of the layer before it.\<close>

definition builder_invariant :: "network \<Rightarrow> bool" where
  "builder_invariant self =
     (layers self \<noteq> []
      \<and> (\<exists>n a. layers self ! 0 = InputLayer n a)
      \<and> prev_layer_size self = layer_N (last (layers self))
      \<and> (\<forall>i s. 0 < i \<and> i < length (layers self) \<and> layers self ! i = FullyConnectedLayer s
             \<longrightarrow> N_p s = layer_N (layers self ! (i - 1))))"

section \<open>Example data\<close>

definition world1 :: world where
  "world1 = \<lparr>arrays = [NDArray 2 [[Fin 1, Fin 2]], zeros 1 2, NDArray 1 [[Fin 3]], zeros 1 1, zeros 1 1,
                       zeros 1 2, zeros 1 1, zeros 2 1, NDArray 1 [[Fin 1], [Fin 1]]],
            stdout = []\<rparr>"

definition layer1 :: fc_layer where
  "layer1 = \<lparr>N = 1, N_p = 2, W = 0, dW = 1, B = 2, dB = 3, Z = 4, dW_sum = 5, dB_sum = 6,
            previous_layer_activations = 7\<rparr>"

definition world2 :: world where
  "world2 = \<lparr>arrays = [NDArray 1 [[Fin 0], [Fin 0], [Fin 2]], NDArray 1 [[Fin 5], [Fin 6], [Fin 7]]], stdout = []\<rparr>"

definition world3 :: world where
  "world3 = \<lparr>arrays = [NDArray 2 [[Fin 1, Fin 2]], zeros 1 2, NDArray 1 [[Fin 3]], zeros 1 1, zeros 1 1,
                       NDArray 2 [[Fin 4, Fin 8]], NDArray 1 [[Fin 2]], zeros 2 1],
            stdout = []\<rparr>"

definition world4 :: world where
  "world4 = \<lparr>arrays = [NDArray 2 [[Fin 1, Fin 2]], zeros 1 2, NDArray 1 [[Fin 3]], zeros 1 1, zeros 1 1,
                       NDArray 2 [[Fin 4, Fin 8]], NDArray 1 [[Fin 2]], NDArray 1 [[Fin 1], [Fin 2]], NDArray 1 [[Fin 3]]],
            stdout = []\<rparr>"

definition world0 :: world where
  "world0 = \<lparr>arrays = [NDArray 1 [[Fin 1], [Fin 2]], NDArray 1 [[Fin 1]],
                       NDArray 1 [[Fin 1], [Fin 1], [Fin 1]]],
            stdout = []\<rparr>"


definition world5 :: world where
  "world5 = \<lparr>arrays = [NDArray 1 [[Fin 0], [Fin 3]], NDArray 1 [[PosInf], [PosInf]]], stdout = []\<rparr>"

definition layer5 :: fc_layer where
  "layer5 = \<lparr>N = 1, N_p = 2, W = 0, dW = 1, B = 2, dB = 3, Z = 4, dW_sum = 0, dB_sum = 6,
            previous_layer_activations = 7\<rparr>"

definition world6 :: world where
  "world6 = \<lparr>arrays = [NDArray 2 [[Fin 1, Fin 2]], zeros 1 2, NDArray 1 [[Fin 3]], zeros 1 1, zeros 1 1,
                       NDArray 2 [[Fin 4, Fin 8]], NDArray 1 [[Fin 2]], zeros 2 1, NDArray 1 [[Fin 3]],
                       NDArray 2 [[Fin 1, Fin 0], [Fin 0, Fin 1]]],
            stdout = []\<rparr>"

definition net2 :: "network \<times> world" where
  "net2 = (case new_network 2 quadratic_cost quadratic_cost_prime False world0 of
             (self, w) \<Rightarrow> add_sigmoid_layer 3 self w)"

definition net3 :: "network \<times> world" where
  "net3 = (case new_network 2 quadratic_cost quadratic_cost_prime False world0 of
             (self, w) \<Rightarrow>
               (case add_fc_layer 3 (\<lambda>i j. 10) (\<lambda>i j. 10) self w of
                  (self, w) \<Rightarrow>
                    (case add_relu_layer 5 self w of
                       (self, w) \<Rightarrow> add_fc_layer 1 (\<lambda>i j. 10) (\<lambda>i j. 10) self w)))"

definition net4 :: "network \<times> world" where
  "net4 = (case new_network 2 cross_entropy_cost cross_entropy_cost_prime_SM True world0 of
             (self, w) \<Rightarrow>
               (case add_fc_layer 2 (\<lambda>i j. 10) (\<lambda>i j. 10) self w of
                  (self, w) \<Rightarrow> add_softmax_layer 2 self w))"

section \<open>Arrays and the store\<close>

lemma shape0_tabulate [simp]: "shape0 (tabulate r c f) = r"
  by (simp add: shape0_def tabulate_def)

lemma shape1_tabulate [simp]: "shape1 (tabulate r c f) = c"
  by (simp add: shape1_def tabulate_def)

lemma entry_tabulate [simp]: "i < r \<Longrightarrow> j < c \<Longrightarrow> entry (tabulate r c f) i j = f i j"
  by (simp add: entry_def tabulate_def)

lemma is_array_tabulate [simp]: "is_array (tabulate r c f)"
  by (simp add: is_array_def tabulate_def list_all_iff)

lemma has_shape_tabulate [simp]: "has_shape (tabulate r c f) r' c' \<longleftrightarrow> r = r' \<and> c = c'"
  by (simp add: has_shape_def)

lemma tabulate_eqI:
  "r = r' \<Longrightarrow> c = c' \<Longrightarrow> (\<And>i j. i < r \<Longrightarrow> j < c \<Longrightarrow> f i j = g i j)
   \<Longrightarrow> tabulate r c f = tabulate r' c' g"
  by (simp add: tabulate_def)

lemma tabulate_entry: "is_array a \<Longrightarrow> tabulate (shape0 a) (shape1 a) (entry a) = a"
  by (cases a) (auto simp: tabulate_def shape0_def shape1_def entry_def is_array_def list_all_iff
      intro!: nth_equalityI)

lemma shape0_map_array [simp]: "shape0 (map_array f a) = shape0 a"
  by (simp add: map_array_def shape0_def)

lemma shape1_map_array [simp]: "shape1 (map_array f a) = shape1 a"
  by (simp add: map_array_def shape1_def)

lemma is_array_map_array [simp]: "is_array (map_array f a) = is_array a"
  by (simp add: map_array_def is_array_def list_all_iff)

lemma entry_map_array:
  "is_array a \<Longrightarrow> i < shape0 a \<Longrightarrow> j < shape1 a \<Longrightarrow> entry (map_array f a) i j = f (entry a i j)"
  by (simp add: map_array_def entry_def shape0_def shape1_def is_array_def list_all_iff)

lemma map_array_tabulate:
  "is_array a \<Longrightarrow> map_array f a = tabulate (shape0 a) (shape1 a) (\<lambda>i j. f (entry a i j))"
  by (cases a) (auto simp: tabulate_def map_array_def shape0_def shape1_def entry_def is_array_def
      list_all_iff intro!: nth_equalityI)

lemma np_binop_same_shape:
  "shape0 a = shape0 b \<Longrightarrow> shape1 a = shape1 b \<Longrightarrow>
   np_binop f a b = Inr (tabulate (shape0 a) (shape1 a) (\<lambda>i j. f (entry a i j) (entry b i j)))"
  by (auto simp: np_binop_def broadcast_dim_def bentry_def intro!: tabulate_eqI)

lemma np_inplace_same_shape:
  "shape0 a = shape0 b \<Longrightarrow> shape1 a = shape1 b \<Longrightarrow>
   np_inplace f a b = Inr (tabulate (shape0 a) (shape1 a) (\<lambda>i j. f (entry a i j) (entry b i j)))"
  by (simp add: np_inplace_def np_binop_same_shape)

lemma arr_push_old: "r < length (arrays w) \<Longrightarrow> arr (push a w) r = arr w r"
  by (simp add: arr_def push_def nth_append)

lemma arr_push_new: "arr (push a w) (length (arrays w)) = a"
  by (simp add: arr_def push_def)

lemma length_arrays_push [simp]: "length (arrays (push a w)) = Suc (length (arrays w))"
  by (simp add: push_def)

lemma stdout_push [simp]: "stdout (push a w) = stdout w"
  by (simp add: push_def)

lemma arr_assign:
  "arr (assign r a w) q = (if q = r \<and> r < length (arrays w) then a else arr w q)"
  by (cases "r < length (arrays w)") (simp_all add: arr_def assign_def list_update_beyond)

lemma length_arrays_assign [simp]: "length (arrays (assign r a w)) = length (arrays w)"
  by (simp add: assign_def)

lemma stdout_assign [simp]: "stdout (assign r a w) = stdout w"
  by (simp add: assign_def)


section \<open>The fully connected layer\<close>

lemma dot_plus_bias:
  assumes "shape1 Wm = shape0 x" "shape1 x = 1" "shape0 Bm = shape0 Wm" "shape1 Bm = 1"
    and "np_dot Wm x = Inr d"
  shows "np_binop (+) d Bm = Inr (weighted_sum Wm x Bm)"
proof -
  have d: "d = tabulate (shape0 Wm) 1 (\<lambda>i j. \<Sum>k\<leftarrow>[0..<shape1 Wm]. entry Wm i k * entry x k j)"
    using assms by (auto simp: np_dot_def)
  have "np_binop (+) d Bm = Inr (tabulate (shape0 d) (shape1 d) (\<lambda>i j. entry d i j + entry Bm i j))"
    using assms d by (intro np_binop_same_shape) auto
  also have "tabulate (shape0 d) (shape1 d) (\<lambda>i j. entry d i j + entry Bm i j) = weighted_sum Wm x Bm"
    unfolding weighted_sum_def by (rule tabulate_eqI) (auto simp: d)
  finally show ?thesis .
qed

lemma fc_forward_conforming:
  assumes conf: "shape1 (arr w (W self)) = shape0 (arr w x)"
    and col: "shape1 (arr w x) = 1"
    and bshape: "shape0 (arr w (B self)) = shape0 (arr w (W self))" "shape1 (arr w (B self)) = 1"
  shows "fc_forward_propagation x self w =
           (Inr (length (arrays w)),
            self\<lparr>Z := length (arrays w), previous_layer_activations := x\<rparr>,
            push (weighted_sum (arr w (W self)) (arr w x) (arr w (B self))) w)"
proof -
  obtain d where d: "np_dot (arr w (W self)) (arr w x) = Inr d"
    using conf by (auto simp: np_dot_def)
  show ?thesis
    using conf d dot_plus_bias[OF conf col bshape d]
    by (simp add: fc_forward_propagation_def alloc_def)
qed

text \<open>
  C1. For a fully connected layer in its regular state and an existing column vector \<open>x\<close>
  with as many rows as \<open>W\<close> has columns, \<open>forward_propagation(x)\<close> returns a new array
  holding \<open>W\<cdot>x + B\<close>, makes \<open>Z\<close> refer to that array and
  \<open>previous_layer_activations\<close> to \<open>x\<close>, and leaves \<open>W\<close> and \<open>B\<close> (the references and
  the arrays behind them) and every other field as they were.
\<close>

theorem fc_forward_propagation_weighted_sum:
  assumes "fc_ok self w" and "x < length (arrays w)"
    and "shape0 (arr w x) = shape1 (arr w (W self))" and "shape1 (arr w x) = 1"
  shows "\<exists>r w'. fc_forward_propagation x self w
                  = (Inr r, self\<lparr>Z := r, previous_layer_activations := x\<rparr>, w')
           \<and> arr w' r = weighted_sum (arr w (W self)) (arr w x) (arr w (B self))
           \<and> arr w' x = arr w x
           \<and> arr w' (W self) = arr w (W self)
           \<and> arr w' (B self) = arr w (B self)"
proof -
  have shapes: "shape0 (arr w (B self)) = shape0 (arr w (W self))" "shape1 (arr w (B self)) = 1"
    and valid: "W self < length (arrays w)" "B self < length (arrays w)"
    using assms(1) by (simp_all add: fc_ok_def fc_params_ok_def has_shape_def params_def)
  show ?thesis
    using fc_forward_conforming[OF assms(3)[symmetric] assms(4) shapes] valid assms(2)
    by (simp add: arr_push_old arr_push_new)
qed

theorem fc_forward_propagation_weighted_sum_witness:
  "fc_ok layer1 world1 \<and> 8 < length (arrays world1)
   \<and> shape0 (arr world1 8) = shape1 (arr world1 (W layer1)) \<and> shape1 (arr world1 8) = 1
   \<and> (\<exists>r w'. fc_forward_propagation 8 layer1 world1
                = (Inr r, layer1\<lparr>Z := r, previous_layer_activations := 8\<rparr>, w')
            \<and> arr w' r = NDArray 1 [[Fin 6]])"
proof -
  have ok: "fc_ok layer1 world1"
    by code_simp
  have h: "8 < length (arrays world1)" "shape0 (arr world1 8) = shape1 (arr world1 (W layer1))"
    "shape1 (arr world1 8) = 1"
    by code_simp+
  have v: "weighted_sum (arr world1 (W layer1)) (arr world1 8) (arr world1 (B layer1)) = NDArray 1 [[Fin 6]]"
    by code_simp
  show ?thesis
    using fc_forward_propagation_weighted_sum[OF ok h] ok h v by auto
qed

section \<open>The shape check of forward propagation\<close>






lemmas run_defs =
  new_network_def add_fc_layer_def add_relu_layer_def add_sigmoid_layer_def add_softmax_layer_def
  new_input_layer_def new_fc_layer_def new_relu_layer_def new_sigmoid_layer_def
  new_softmax_layer_def alloc_def push_def assign_def print_def arr_def shape0_def shape1_def
  entry_def bentry_def tabulate_def zeros_def map_array_def transpose_array_def np_dot_def
  np_binop_def np_inplace_def broadcast_dim_def np_div_scalar_def scaled_average_def
  fc_forward_propagation_def fc_backward_propagation_def fc_update_parameters_def
  forward_pass_def backward_pass_def first_upstream_gradient_def mini_batch_pass_def
  relu_forward_def relu_prime_def quadratic_cost_def quadratic_cost_prime_def
  cross_entropy_cost_prime_SM_def zero_float64_def one_float64_def minus_float64_def
  Let_def nth_append upt_conv_Cons



section \<open>The ReLU layer\<close>

lemma one_times [simp]: "1 * (x::float64) = x"
  by (cases x) (simp_all add: one_float64_def)

lemma zero_times_finite: "finite_value x \<Longrightarrow> 0 * (x::float64) = 0"
  by (cases x) (simp_all add: zero_float64_def)

lemma zero_times_not_finite: "\<not> finite_value x \<Longrightarrow> 0 * (x::float64) = NaN"
  by (cases x) (simp_all add: zero_float64_def)

lemma relu_backward_same_shape:
  assumes "is_array (arr w a)"
    and "shape0 (arr w g) = shape0 (arr w a)" and "shape1 (arr w g) = shape1 (arr w a)"
  shows "backward_propagation g (ReluLayer n a) w =
           (Inr (length (arrays w)), ReluLayer n a,
            push (tabulate (shape0 (arr w a)) (shape1 (arr w a))
                    (\<lambda>i j. (if positive (entry (arr w a) i j) then 1 else 0) * entry (arr w g) i j)) w)"
proof -
  have "np_binop (*) (relu_prime (arr w a)) (arr w g) =
        Inr (tabulate (shape0 (relu_prime (arr w a))) (shape1 (relu_prime (arr w a)))
               (\<lambda>i j. entry (relu_prime (arr w a)) i j * entry (arr w g) i j))"
    using assms by (intro np_binop_same_shape) (simp_all add: relu_prime_def)
  also have "tabulate (shape0 (relu_prime (arr w a))) (shape1 (relu_prime (arr w a)))
               (\<lambda>i j. entry (relu_prime (arr w a)) i j * entry (arr w g) i j)
           = tabulate (shape0 (arr w a)) (shape1 (arr w a))
                  (\<lambda>i j. (if positive (entry (arr w a) i j) then 1 else 0) * entry (arr w g) i j)"
    using assms(1) by (intro tabulate_eqI) (simp_all add: relu_prime_def entry_map_array)
  finally show ?thesis
    by (simp add: alloc_def)
qed

lemma entry_relu_forward:
  "is_array z \<Longrightarrow> i < shape0 z \<Longrightarrow> j < shape1 z \<Longrightarrow> entry (relu_forward z) i j = maximum0 (entry z i j)"
  by (simp add: relu_forward_def entry_map_array)

lemma maximum0_not_positive: "entry_value = Fin v \<Longrightarrow> v \<le> 0 \<Longrightarrow> maximum0 entry_value = 0"
  by (simp add: zero_float64_def max_def)

lemma Fin_zero: "Fin 0 = 0"
  by (simp add: zero_float64_def)

lemma not_positive_zero [simp]: "\<not> positive 0"
  by (simp add: zero_float64_def)

text \<open>
  C8, as the code has it. When the activation of a ReLU layer is the elementwise
  \<open>max(z, 0)\<close> of the last input \<open>z\<close> and the upstream gradient \<open>g\<close> has the shape of
  \<open>z\<close>, \<open>backward_propagation(g)\<close> leaves the layer and the existing arrays as they are
  and returns a new array of that shape: the product of \<open>g\<close> with the indicator of a
  positive activation, taken as 1.0 or 0.0. So the entry is the entry of \<open>g\<close> where the
  activation is positive. Where the activation is 0, which it is wherever \<open>z\<close> is zero or
  negative, the entry is 0 if the entry of \<open>g\<close> is finite, and nan if it is an infinity or
  nan.
\<close>

theorem relu_backward_propagation_indicator:
  assumes "is_array z" and "arr w a = relu_forward z"
    and "shape0 (arr w g) = shape0 z" and "shape1 (arr w g) = shape1 z"
  shows "\<exists>w'. backward_propagation g (ReluLayer n a) w = (Inr (length (arrays w)), ReluLayer n a, w')
           \<and> length (arrays w') = Suc (length (arrays w))
           \<and> (\<forall>q < length (arrays w). arr w' q = arr w q)
           \<and> shape0 (arr w' (length (arrays w))) = shape0 z
           \<and> shape1 (arr w' (length (arrays w))) = shape1 z
           \<and> (\<forall>i < shape0 z. \<forall>j < shape1 z.
                 entry (arr w' (length (arrays w))) i j
                   = (if positive (entry (arr w a) i j) then 1 else 0) * entry (arr w g) i j
                 \<and> (positive (entry (arr w a) i j) \<longrightarrow>
                       entry (arr w' (length (arrays w))) i j = entry (arr w g) i j)
                 \<and> (entry (arr w a) i j = 0 \<and> finite_value (entry (arr w g) i j) \<longrightarrow>
                       entry (arr w' (length (arrays w))) i j = 0)
                 \<and> (entry (arr w a) i j = 0 \<and> \<not> finite_value (entry (arr w g) i j) \<longrightarrow>
                       entry (arr w' (length (arrays w))) i j = NaN)
                 \<and> (\<forall>v. entry z i j = Fin v \<and> v \<le> 0 \<longrightarrow> entry (arr w a) i j = 0))"
proof -
  let ?r = "tabulate (shape0 (arr w a)) (shape1 (arr w a))
              (\<lambda>i j. (if positive (entry (arr w a) i j) then 1 else 0) * entry (arr w g) i j)"
  have a: "is_array (arr w a)" "shape0 (arr w a) = shape0 z" "shape1 (arr w a) = shape1 z"
    using assms(1,2) by (simp_all add: relu_forward_def)
  have run: "backward_propagation g (ReluLayer n a) w = (Inr (length (arrays w)), ReluLayer n a, push ?r w)"
    using relu_backward_same_shape[of w a g n] a assms(3,4) by simp
  have e: "entry (arr w a) i j = maximum0 (entry z i j)" if "i < shape0 z" "j < shape1 z" for i j
    using that assms(1,2) by (simp add: entry_relu_forward)
  have "\<forall>i < shape0 z. \<forall>j < shape1 z.
          entry ?r i j = (if positive (entry (arr w a) i j) then 1 else 0) * entry (arr w g) i j
          \<and> (positive (entry (arr w a) i j) \<longrightarrow> entry ?r i j = entry (arr w g) i j)
          \<and> (entry (arr w a) i j = 0 \<and> finite_value (entry (arr w g) i j) \<longrightarrow> entry ?r i j = 0)
          \<and> (entry (arr w a) i j = 0 \<and> \<not> finite_value (entry (arr w g) i j) \<longrightarrow> entry ?r i j = NaN)
          \<and> (\<forall>v. entry z i j = Fin v \<and> v \<le> 0 \<longrightarrow> entry (arr w a) i j = 0)"
    using a e by (auto simp: zero_times_finite zero_times_not_finite Fin_zero)
  then show ?thesis
    using run a by (simp add: arr_push_new arr_push_old)
qed

theorem relu_backward_propagation_indicator_witness:
  "is_array (NDArray 1 [[Fin (- 1)], [Fin 0], [Fin 2]])
   \<and> arr world2 0 = relu_forward (NDArray 1 [[Fin (- 1)], [Fin 0], [Fin 2]])
   \<and> shape0 (arr world2 1) = shape0 (NDArray 1 [[Fin (- 1)], [Fin 0], [Fin 2]])
   \<and> shape1 (arr world2 1) = shape1 (NDArray 1 [[Fin (- 1)], [Fin 0], [Fin 2]])
   \<and> (\<exists>w'. backward_propagation 1 (ReluLayer 3 0) world2 = (Inr 2, ReluLayer 3 0, w')
          \<and> entry (arr w' 2) 0 0 = 0 \<and> entry (arr w' 2) 1 0 = 0 \<and> entry (arr w' 2) 2 0 = Fin 7)"
proof -
  have h: "is_array (NDArray 1 [[Fin (- 1)], [Fin 0], [Fin 2]])"
    "arr world2 0 = relu_forward (NDArray 1 [[Fin (- 1)], [Fin 0], [Fin 2]])"
    "shape0 (arr world2 1) = shape0 (NDArray 1 [[Fin (- 1)], [Fin 0], [Fin 2]])"
    "shape1 (arr world2 1) = shape1 (NDArray 1 [[Fin (- 1)], [Fin 0], [Fin 2]])"
    by (simp_all add: world2_def is_array_def run_defs)
  have s: "shape0 (NDArray 1 [[Fin (- 1)], [Fin 0], [Fin 2]]) = 3"
    "shape1 (NDArray 1 [[Fin (- 1)], [Fin 0], [Fin 2]]) = 1" "length (arrays world2) = 2"
    by (simp_all add: world2_def run_defs)
  have v: "entry (arr world2 0) 0 0 = 0" "entry (arr world2 0) 1 0 = 0"
    "positive (entry (arr world2 0) 2 0)" "entry (arr world2 1) 2 0 = Fin 7"
    "finite_value (entry (arr world2 1) 0 0)" "finite_value (entry (arr world2 1) 1 0)"
    by (simp_all add: world2_def run_defs)
  let ?z = "NDArray 1 [[Fin (- 1)], [Fin 0], [Fin 2]]"
  from relu_backward_propagation_indicator[OF h, of 3]
  obtain w' where r: "backward_propagation 1 (ReluLayer 3 0) world2
                        = (Inr (length (arrays world2)), ReluLayer 3 0, w')"
    and e: "\<forall>i < shape0 ?z. \<forall>j < shape1 ?z.
                 entry (arr w' (length (arrays world2))) i j
                   = (if positive (entry (arr world2 0) i j) then 1 else 0) * entry (arr world2 1) i j
                 \<and> (positive (entry (arr world2 0) i j) \<longrightarrow>
                       entry (arr w' (length (arrays world2))) i j = entry (arr world2 1) i j)
                 \<and> (entry (arr world2 0) i j = 0 \<and> finite_value (entry (arr world2 1) i j) \<longrightarrow>
                       entry (arr w' (length (arrays world2))) i j = 0)
                 \<and> (entry (arr world2 0) i j = 0 \<and> \<not> finite_value (entry (arr world2 1) i j) \<longrightarrow>
                       entry (arr w' (length (arrays world2))) i j = NaN)
                 \<and> (\<forall>v. entry ?z i j = Fin v \<and> v \<le> 0 \<longrightarrow> entry (arr world2 0) i j = 0)"
    by blast
  have e0: "entry (arr w' 2) 0 0 = 0"
    using e[rule_format, of 0 0] v s by (simp add: zero_times_finite)
  have e1: "entry (arr w' 2) 1 0 = 0"
    using e[rule_format, of 1 0] v s by (simp add: zero_times_finite)
  have e2: "entry (arr w' 2) 2 0 = Fin 7"
    using e[rule_format, of 2 0] v s by simp
  show ?thesis
    using r h e0 e1 e2 s(3) by simp
qed

text \<open>
  The returned component is not 0 at every zero activation. Below the first activation is 0
  (the pre-activation was negative) and the upstream gradient is infinite there: the
  returned entry is nan.
\<close>

theorem relu_backward_propagation_zero_times_inf:
  "arr world5 0 = relu_forward (NDArray 1 [[Fin (- 1)], [Fin 3]])
   \<and> entry (arr world5 0) 0 0 = 0
   \<and> backward_propagation 1 (ReluLayer 2 0) world5
       = (Inr 2, ReluLayer 2 0, push (NDArray 1 [[NaN], [PosInf]]) world5)
   \<and> entry (NDArray 1 [[NaN], [PosInf]]) 0 0 \<noteq> 0"
  by (simp add: world5_def run_defs)

section \<open>Updating the parameters\<close>

lemma scaled_average_tabulate:
  "is_array s \<Longrightarrow>
   scaled_average eta s m = tabulate (shape0 s) (shape1 s) (\<lambda>i j. eta * (entry s i j / Fin (real m)))"
  by (auto simp: scaled_average_def np_div_scalar_def map_array_tabulate intro!: tabulate_eqI)

lemma inplace_descent:
  assumes "is_array s" "shape0 s = shape0 p" "shape1 s = shape1 p"
  shows "np_inplace (-) p (scaled_average eta s m) = Inr (descent_step eta m p s)"
proof -
  let ?st = "scaled_average eta s m"
  have st: "?st = tabulate (shape0 s) (shape1 s) (\<lambda>i j. eta * (entry s i j / Fin (real m)))"
    using assms by (simp add: scaled_average_tabulate)
  have "np_inplace (-) p ?st = Inr (tabulate (shape0 p) (shape1 p) (\<lambda>i j. entry p i j - entry ?st i j))"
    using assms st by (intro np_inplace_same_shape) simp_all
  also have "tabulate (shape0 p) (shape1 p) (\<lambda>i j. entry p i j - entry ?st i j) = descent_step eta m p s"
    unfolding descent_step_def using assms by (intro tabulate_eqI) (simp_all add: st)
  finally show ?thesis .
qed

lemma map_array_zero: "has_shape a r c \<Longrightarrow> map_array (\<lambda>x. 0) a = zeros r c"
  by (simp add: has_shape_def map_array_tabulate zeros_def)

lemma has_shape_descent_step [simp]:
  "has_shape (descent_step eta m p s) r c \<longleftrightarrow> shape0 p = r \<and> shape1 p = c"
  by (simp add: descent_step_def)

lemma has_shape_zeros [simp]: "has_shape (zeros r c) r' c' \<longleftrightarrow> r = r' \<and> c = c'"
  by (simp add: zeros_def)

lemma fc_okD:
  assumes "fc_params_ok self w"
  shows "W self < length (arrays w)" "B self < length (arrays w)"
    "dW_sum self < length (arrays w)" "dB_sum self < length (arrays w)"
    "W self \<noteq> B self" "W self \<noteq> dW_sum self" "W self \<noteq> dB_sum self"
    "B self \<noteq> dW_sum self" "B self \<noteq> dB_sum self" "dW_sum self \<noteq> dB_sum self"
    "has_shape (arr w (W self)) (N self) (N_p self)"
    "has_shape (arr w (dW_sum self)) (N self) (N_p self)"
    "has_shape (arr w (B self)) (N self) 1"
    "has_shape (arr w (dB_sum self)) (N self) 1"
  using assms by (simp_all add: fc_params_ok_def params_def)

lemma fc_update_regular:
  assumes ok: "fc_params_ok self w"
  shows "fc_update_parameters m eta self w =
           (Inr (), self,
            assign (dB_sum self) (zeros (N self) 1)
              (assign (dW_sum self) (zeros (N self) (N_p self))
                 (assign (B self) (descent_step eta m (arr w (B self)) (arr w (dB_sum self)))
                    (assign (W self) (descent_step eta m (arr w (W self)) (arr w (dW_sum self))) w))))"
proof -
  note d = fc_okD[OF ok]
  let ?w1 = "assign (W self) (descent_step eta m (arr w (W self)) (arr w (dW_sum self))) w"
  let ?w2 = "assign (B self) (descent_step eta m (arr w (B self)) (arr w (dB_sum self))) ?w1"
  have nW: "np_inplace (-) (arr w (W self)) (scaled_average eta (arr w (dW_sum self)) m)
            = Inr (descent_step eta m (arr w (W self)) (arr w (dW_sum self)))"
    using d by (intro inplace_descent) (simp_all add: has_shape_def)
  have r1: "arr ?w1 (dB_sum self) = arr w (dB_sum self)" "arr ?w1 (B self) = arr w (B self)"
    using d by (simp_all add: arr_assign)
  have nB: "np_inplace (-) (arr w (B self)) (scaled_average eta (arr w (dB_sum self)) m)
            = Inr (descent_step eta m (arr w (B self)) (arr w (dB_sum self)))"
    using d by (intro inplace_descent) (simp_all add: has_shape_def)
  have r2: "arr ?w2 (dW_sum self) = arr w (dW_sum self)"
    using d by (simp add: arr_assign)
  have z1: "map_array (\<lambda>x. 0) (arr w (dW_sum self)) = zeros (N self) (N_p self)"
    using d by (simp add: map_array_zero)
  have r3: "arr (assign (dW_sum self) (zeros (N self) (N_p self)) ?w2) (dB_sum self) = arr w (dB_sum self)"
    using d by (simp add: arr_assign)
  have z2: "map_array (\<lambda>x. 0) (arr w (dB_sum self)) = zeros (N self) 1"
    using d by (simp add: map_array_zero)
  show ?thesis
    unfolding fc_update_parameters_def
    by (simp add: nW r1 nB r2 z1 r3 z2 Let_def)
qed

lemma fc_update_effect:
  assumes ok: "fc_params_ok self w"
    and res: "fc_update_parameters m eta self w = (res, self', w')"
  shows "res = Inr ()" "self' = self"
    "arr w' (W self) = descent_step eta m (arr w (W self)) (arr w (dW_sum self))"
    "arr w' (B self) = descent_step eta m (arr w (B self)) (arr w (dB_sum self))"
    "arr w' (dW_sum self) = zeros (N self) (N_p self)"
    "arr w' (dB_sum self) = zeros (N self) 1"
    "length (arrays w') = length (arrays w)"
    "stdout w' = stdout w"
    "r \<notin> set (params self) \<Longrightarrow> arr w' r = arr w r"
  using res fc_okD[OF ok] unfolding fc_update_regular[OF ok]
  by (auto simp: arr_assign params_def)

text \<open>
  C3. For a fully connected layer in its regular state and a positive \<open>mini_batch_size\<close>,
  \<open>update_parameters\<close> returns normally; afterwards \<open>W\<close> holds
  \<open>W - eta\<cdot>(dW_sum / mini_batch_size)\<close> and \<open>B\<close> holds
  \<open>B - eta\<cdot>(dB_sum / mini_batch_size)\<close>, computed from the values before the call, and
  \<open>dW_sum\<close> and \<open>dB_sum\<close> are zero. No field is made to refer to another array, no
  array is created, and every array other than these four (so the ones behind \<open>dW\<close>,
  \<open>dB\<close>, \<open>Z\<close> and \<open>previous_layer_activations\<close>) keeps its value.
\<close>

theorem fc_update_parameters_descent:
  assumes "fc_ok self w" and "0 < m"
  shows "\<exists>w'. fc_update_parameters m eta self w = (Inr (), self, w')
           \<and> arr w' (W self) = descent_step eta m (arr w (W self)) (arr w (dW_sum self))
           \<and> arr w' (B self) = descent_step eta m (arr w (B self)) (arr w (dB_sum self))
           \<and> arr w' (dW_sum self) = zeros (N self) (N_p self)
           \<and> arr w' (dB_sum self) = zeros (N self) 1
           \<and> length (arrays w') = length (arrays w)
           \<and> (\<forall>r. r \<notin> set (params self) \<longrightarrow> arr w' r = arr w r)
           \<and> list_all (\<lambda>r. arr w' r = arr w r) (caches self)"
proof -
  obtain res self' w' where r: "fc_update_parameters m eta self w = (res, self', w')"
    by (cases "fc_update_parameters m eta self w") auto
  have p: "fc_params_ok self w"
    using assms(1) by (simp add: fc_ok_def)
  note e = fc_update_effect[OF p r]
  have "list_all (\<lambda>r. r \<notin> set (params self)) (caches self)"
    using assms(1) by (simp add: fc_ok_def)
  then have "list_all (\<lambda>r. arr w' r = arr w r) (caches self)"
    using e(9) by (simp add: list_all_iff)
  with r e show ?thesis by auto
qed

theorem fc_update_parameters_descent_witness:
  "fc_ok layer1 world3 \<and> (0::nat) < 2
   \<and> (\<exists>w'. fc_update_parameters 2 (Fin (1 / 2)) layer1 world3 = (Inr (), layer1, w')
         \<and> arr w' (W layer1) = NDArray 2 [[Fin 0, Fin 0]]
         \<and> arr w' (B layer1) = NDArray 1 [[Fin (5 / 2)]]
         \<and> arr w' (dW_sum layer1) = NDArray 2 [[Fin 0, Fin 0]]
         \<and> arr w' (dB_sum layer1) = NDArray 1 [[Fin 0]])"
proof -
  have ok: "fc_ok layer1 world3"
    by (simp add: fc_ok_def fc_params_ok_def params_def caches_def has_shape_def is_array_def
        layer1_def world3_def run_defs)
  have v: "descent_step (Fin (1 / 2)) 2 (arr world3 (W layer1)) (arr world3 (dW_sum layer1))
             = NDArray 2 [[Fin 0, Fin 0]]"
    "descent_step (Fin (1 / 2)) 2 (arr world3 (B layer1)) (arr world3 (dB_sum layer1))
             = NDArray 1 [[Fin (5 / 2)]]"
    "zeros (N layer1) (N_p layer1) = NDArray 2 [[Fin 0, Fin 0]]"
    "zeros (N layer1) 1 = NDArray 1 [[Fin 0]]"
    by (simp_all add: descent_step_def layer1_def world3_def run_defs)
  show ?thesis
    using fc_update_parameters_descent[OF ok, of 2 "Fin (1 / 2)"] ok unfolding v by auto
qed

section \<open>Backward propagation through a fully connected layer\<close>

lemma outer_dot:
  assumes "shape1 g = 1" "shape1 a = 1"
  shows "np_dot g (transpose_array a) = Inr (outer_product g a)"
  using assms unfolding np_dot_def outer_product_def transpose_array_def
  by (auto intro!: tabulate_eqI)

lemma transposed_dot:
  assumes "shape0 g = shape0 Wm" "shape1 g = 1"
  shows "np_dot (transpose_array Wm) g = Inr (transposed_product Wm g)"
proof -
  have "(\<Sum>k\<leftarrow>[0..<shape0 Wm]. entry (transpose_array Wm) i k * entry g k j)
        = (\<Sum>k\<leftarrow>[0..<shape0 Wm]. entry Wm k i * entry g k 0)"
    if "i < shape1 Wm" "j < 1" for i j
    using that by (intro arg_cong[where f=sum_list] map_cong) (simp_all add: transpose_array_def)
  then show ?thesis
    using assms unfolding np_dot_def transposed_product_def
    by (auto simp: transpose_array_def intro!: tabulate_eqI)
qed

lemma inplace_sum:
  assumes "shape0 b = shape0 a" "shape1 b = shape1 a"
  shows "np_inplace (+) a b = Inr (array_sum a b)"
  using assms by (simp add: np_inplace_same_shape array_sum_def)

lemma fc_backward_conforming:
  assumes ok: "fc_params_ok self w"
    and g: "g < length (arrays w)" "shape0 (arr w g) = N self" "shape1 (arr w g) = 1"
    and p: "previous_layer_activations self < length (arrays w)"
      "shape0 (arr w (previous_layer_activations self)) = N_p self"
      "shape1 (arr w (previous_layer_activations self)) = 1"
    and na: "g \<noteq> dW_sum self" "g \<noteq> dB_sum self"
  shows "fc_backward_propagation g self w =
     (Inr (Suc (length (arrays w))), self\<lparr>dW := length (arrays w), dB := g\<rparr>,
      push (transposed_product (arr w (W self)) (arr w g))
        (assign (dB_sum self) (array_sum (arr w (dB_sum self)) (arr w g))
          (assign (dW_sum self)
             (array_sum (arr w (dW_sum self))
                (outer_product (arr w g) (arr w (previous_layer_activations self))))
             (push (outer_product (arr w g) (arr w (previous_layer_activations self))) w))))"
proof -
  note d = fc_okD[OF ok]
  let ?o = "outer_product (arr w g) (arr w (previous_layer_activations self))"
  let ?w1 = "push ?o w"
  let ?w2 = "assign (dW_sum self) (array_sum (arr w (dW_sum self)) ?o) ?w1"
  let ?w3 = "assign (dB_sum self) (array_sum (arr w (dB_sum self)) (arr w g)) ?w2"
  have dot1: "np_dot (arr w g) (transpose_array (arr w (previous_layer_activations self))) = Inr ?o"
    using g p by (simp add: outer_dot)
  have r1: "arr ?w1 (dW_sum self) = arr w (dW_sum self)" "arr ?w1 (length (arrays w)) = ?o"
    using d by (simp_all add: arr_push_old arr_push_new)
  have i1: "np_inplace (+) (arr w (dW_sum self)) ?o = Inr (array_sum (arr w (dW_sum self)) ?o)"
    using d g p by (intro inplace_sum) (simp_all add: has_shape_def outer_product_def)
  have r2: "arr ?w2 (dB_sum self) = arr w (dB_sum self)" "arr ?w2 g = arr w g"
    using d g na by (simp_all add: arr_assign arr_push_old)
  have i2: "np_inplace (+) (arr w (dB_sum self)) (arr w g) = Inr (array_sum (arr w (dB_sum self)) (arr w g))"
    using d g by (intro inplace_sum) (simp_all add: has_shape_def)
  have r3: "arr ?w3 (W self) = arr w (W self)" "arr ?w3 g = arr w g"
    using d g na by (simp_all add: arr_assign arr_push_old)
  have dot2: "np_dot (transpose_array (arr w (W self))) (arr w g)
              = Inr (transposed_product (arr w (W self)) (arr w g))"
    using d g by (intro transposed_dot) (simp_all add: has_shape_def)
  have l3: "length (arrays ?w3) = Suc (length (arrays w))"
    by simp
  show ?thesis
    unfolding fc_backward_propagation_def
    by (simp add: dot1 alloc_def r1 i1 r2 i2 r3 dot2 l3 Let_def)
qed

lemma fc_params_ok_after_backward:
  assumes "fc_params_ok self w"
    and "has_shape sW (N self) (N_p self)" and "has_shape sB (N self) 1"
  shows "fc_params_ok (self\<lparr>dW := d, dB := g\<rparr>)
           (push u (assign (dB_sum self) sB (assign (dW_sum self) sW (push o' w))))"
  using assms fc_okD[OF assms(1)]
  by (simp add: fc_params_ok_def params_def arr_push_old arr_assign)

text \<open>
  C2, as the code has it. Take a fully connected layer whose weights, biases and two
  running sums are four different arrays of the shapes the constructor gives them, whose
  \<open>previous_layer_activations\<close> is a column vector of \<open>N_p\<close> rows, and an existing column
  vector \<open>g\<close> of \<open>N\<close> rows that is neither \<open>dW_sum\<close> nor \<open>dB_sum\<close>. Then
  \<open>backward_propagation(g)\<close> creates exactly two arrays. The first holds the outer product
  of \<open>g\<close> and the cached input; \<open>dW\<close> is made to refer to it and it is added to
  \<open>dW_sum\<close>. \<open>dB\<close> is made to refer to the array \<open>g\<close> itself (the same object, not a
  copy), and \<open>g\<close> is added to \<open>dB_sum\<close>. The second new array holds \<open>W\<^sup>T\<cdot>g\<close> and is
  returned. Every array that existed before, other than the two sums, keeps its value: so
  do \<open>W\<close>, \<open>B\<close> and \<open>g\<close>. No other field changes, and the layer is again in such a
  state, so that the next call adds to the sums this call left.
\<close>

theorem fc_backward_propagation_accumulates:
  assumes "fc_params_ok self w"
    and "previous_layer_activations self < length (arrays w)"
    and "shape0 (arr w (previous_layer_activations self)) = N_p self"
    and "shape1 (arr w (previous_layer_activations self)) = 1"
    and "g < length (arrays w)" and "shape0 (arr w g) = N self" and "shape1 (arr w g) = 1"
    and "g \<noteq> dW_sum self" and "g \<noteq> dB_sum self"
  shows "\<exists>w'. fc_backward_propagation g self w
                 = (Inr (Suc (length (arrays w))), self\<lparr>dW := length (arrays w), dB := g\<rparr>, w')
           \<and> length (arrays w') = Suc (Suc (length (arrays w)))
           \<and> arr w' (length (arrays w))
               = outer_product (arr w g) (arr w (previous_layer_activations self))
           \<and> arr w' (dW_sum self)
               = array_sum (arr w (dW_sum self))
                   (outer_product (arr w g) (arr w (previous_layer_activations self)))
           \<and> arr w' (dB_sum self) = array_sum (arr w (dB_sum self)) (arr w g)
           \<and> arr w' (Suc (length (arrays w))) = transposed_product (arr w (W self)) (arr w g)
           \<and> (\<forall>q < length (arrays w). q \<noteq> dW_sum self \<and> q \<noteq> dB_sum self \<longrightarrow> arr w' q = arr w q)
           \<and> arr w' (W self) = arr w (W self)
           \<and> arr w' (B self) = arr w (B self)
           \<and> arr w' g = arr w g
           \<and> fc_params_ok (self\<lparr>dW := length (arrays w), dB := g\<rparr>) w'"
proof -
  let ?o = "outer_product (arr w g) (arr w (previous_layer_activations self))"
  let ?sW = "array_sum (arr w (dW_sum self)) ?o"
  let ?sB = "array_sum (arr w (dB_sum self)) (arr w g)"
  let ?u = "transposed_product (arr w (W self)) (arr w g)"
  let ?w' = "push ?u (assign (dB_sum self) ?sB (assign (dW_sum self) ?sW (push ?o w)))"
  let ?self' = "self\<lparr>dW := length (arrays w), dB := g\<rparr>"
  note d = fc_okD[OF assms(1)]
  have run: "fc_backward_propagation g self w = (Inr (Suc (length (arrays w))), ?self', ?w')"
    using fc_backward_conforming[OF assms(1) assms(5,6,7) assms(2,3,4) assms(8,9)] .
  have len: "length (arrays ?w') = Suc (Suc (length (arrays w)))"
    by simp
  have new2: "arr ?w' (Suc (length (arrays w))) = ?u"
    using arr_push_new[of ?u "assign (dB_sum self) ?sB (assign (dW_sum self) ?sW (push ?o w))"]
    by simp
  have new1: "arr ?w' (length (arrays w)) = ?o"
    using d by (simp add: arr_push_old arr_assign arr_push_new)
  have sums: "arr ?w' (dW_sum self) = ?sW" "arr ?w' (dB_sum self) = ?sB"
    using d by (simp_all add: arr_push_old arr_assign)
  have frame: "arr ?w' q = arr w q"
    if "q < length (arrays w)" "q \<noteq> dW_sum self" "q \<noteq> dB_sum self" for q
    using that by (simp add: arr_push_old arr_assign)
  have sh: "has_shape ?sW (N self) (N_p self)" "has_shape ?sB (N self) 1"
    using d by (simp_all add: array_sum_def has_shape_def)
  have ok': "fc_params_ok ?self' ?w'"
    using fc_params_ok_after_backward[OF assms(1) sh] .
  have keep: "arr ?w' (W self) = arr w (W self)" "arr ?w' (B self) = arr w (B self)"
    "arr ?w' g = arr w g"
    using d assms(5,8,9) by (simp_all add: frame)
  show ?thesis
    using run len new1 new2 sums frame keep ok' by blast
qed

theorem fc_backward_propagation_accumulates_witness:
  "fc_params_ok layer1 world4 \<and> previous_layer_activations layer1 < length (arrays world4)
   \<and> shape0 (arr world4 (previous_layer_activations layer1)) = N_p layer1
   \<and> shape1 (arr world4 (previous_layer_activations layer1)) = 1
   \<and> 8 < length (arrays world4)
   \<and> shape0 (arr world4 8) = N layer1 \<and> shape1 (arr world4 8) = 1
   \<and> 8 \<noteq> dW_sum layer1 \<and> 8 \<noteq> dB_sum layer1
   \<and> (\<exists>w'. fc_backward_propagation 8 layer1 world4 = (Inr 10, layer1\<lparr>dW := 9, dB := 8\<rparr>, w')
          \<and> arr w' 9 = NDArray 2 [[Fin 3, Fin 6]]
          \<and> arr w' (dW_sum layer1) = NDArray 2 [[Fin 7, Fin 14]]
          \<and> arr w' (dB_sum layer1) = NDArray 1 [[Fin 5]]
          \<and> arr w' 10 = NDArray 1 [[Fin 3], [Fin 6]])"
proof -
  have ok: "fc_params_ok layer1 world4"
    by (simp add: fc_params_ok_def params_def has_shape_def is_array_def
        layer1_def world4_def run_defs)
  have h: "previous_layer_activations layer1 < length (arrays world4)"
    "shape0 (arr world4 (previous_layer_activations layer1)) = N_p layer1"
    "shape1 (arr world4 (previous_layer_activations layer1)) = 1"
    "8 < length (arrays world4)" "shape0 (arr world4 8) = N layer1" "shape1 (arr world4 8) = 1"
    "8 \<noteq> dW_sum layer1" "8 \<noteq> dB_sum layer1"
    by (simp_all add: layer1_def world4_def run_defs)
  have l: "length (arrays world4) = 9"
    by (simp add: world4_def)
  have v: "outer_product (arr world4 8) (arr world4 (previous_layer_activations layer1))
             = NDArray 2 [[Fin 3, Fin 6]]"
    "array_sum (arr world4 (dW_sum layer1)) (NDArray 2 [[Fin 3, Fin 6]]) = NDArray 2 [[Fin 7, Fin 14]]"
    "array_sum (arr world4 (dB_sum layer1)) (arr world4 8) = NDArray 1 [[Fin 5]]"
    "transposed_product (arr world4 (W layer1)) (arr world4 8) = NDArray 1 [[Fin 3], [Fin 6]]"
    by (simp_all add: outer_product_def array_sum_def transposed_product_def layer1_def world4_def
        run_defs)
  show ?thesis
    using fc_backward_propagation_accumulates[OF ok h] ok h unfolding v l by auto
qed

text \<open>
  The claim fails as stated, at these inputs. (1) The bias gradient is not a copy: after the
  call the field \<open>dB\<close> is the reference \<open>g\<close>, and writing into the array \<open>g\<close> afterwards
  changes what \<open>dB\<close> reads. (2) A column vector \<open>g\<close> with another number of rows than
  \<open>N\<close> makes the call raise ValueError. (3) When \<open>g\<close> is the array \<open>dB_sum\<close>, the
  returned array is not \<open>W\<^sup>T\<cdot>g\<close> for the \<open>g\<close> passed. (4) Not every state will do: after a
  forward propagation of an input with two columns, which is accepted, the call raises
  ValueError. (5) Nor will a layer whose field \<open>dW_sum\<close> refers to the array of \<open>W\<close>: the
  call changes \<open>W\<close>.
\<close>

theorem fc_backward_propagation_dB_is_argument:
  "(dB (fst (snd (fc_backward_propagation 8 layer1 world4))) = 8
    \<and> arr (assign 8 (zeros 1 1) (snd (snd (fc_backward_propagation 8 layer1 world4))))
          (dB (fst (snd (fc_backward_propagation 8 layer1 world4))))
       \<noteq> arr (snd (snd (fc_backward_propagation 8 layer1 world4)))
            (dB (fst (snd (fc_backward_propagation 8 layer1 world4)))))
   \<and> fst (fc_backward_propagation 7 layer1 world4) = Inl ValueError
   \<and> (fst (fc_backward_propagation 6 layer1 world4) = Inr 10
       \<and> arr (snd (snd (fc_backward_propagation 6 layer1 world4))) 10
           \<noteq> transposed_product (arr world4 (W layer1)) (arr world4 6))
   \<and> (fst (fc_forward_propagation 9 layer1 world6) = Inr 10
       \<and> fst (fc_backward_propagation 8 (fst (snd (fc_forward_propagation 9 layer1 world6)))
                (snd (snd (fc_forward_propagation 9 layer1 world6)))) = Inl ValueError)
   \<and> arr (snd (snd (fc_backward_propagation 8 layer5 world4))) (W layer5)
       \<noteq> arr world4 (W layer5)"
proof (intro conjI)
  have r8: "fc_backward_propagation 8 layer1 world4 =
        (Inr 10, layer1\<lparr>dW := 9, dB := 8\<rparr>,
         world4\<lparr>arrays := [NDArray 2 [[Fin 1, Fin 2]], zeros 1 2, NDArray 1 [[Fin 3]], zeros 1 1,
                           zeros 1 1, NDArray 2 [[Fin 7, Fin 14]], NDArray 1 [[Fin 5]],
                           NDArray 1 [[Fin 1], [Fin 2]], NDArray 1 [[Fin 3]],
                           NDArray 2 [[Fin 3, Fin 6]], NDArray 1 [[Fin 3], [Fin 6]]]\<rparr>)"
    by (simp add: layer1_def world4_def run_defs)
  show "dB (fst (snd (fc_backward_propagation 8 layer1 world4))) = 8"
    unfolding r8 by simp
  show "arr (assign 8 (zeros 1 1) (snd (snd (fc_backward_propagation 8 layer1 world4))))
          (dB (fst (snd (fc_backward_propagation 8 layer1 world4))))
       \<noteq> arr (snd (snd (fc_backward_propagation 8 layer1 world4)))
            (dB (fst (snd (fc_backward_propagation 8 layer1 world4))))"
    unfolding r8 by (simp add: run_defs)
  show "fst (fc_backward_propagation 7 layer1 world4) = Inl ValueError"
    by (simp add: layer1_def world4_def run_defs)
  have r6: "fc_backward_propagation 6 layer1 world4 =
        (Inr 10, layer1\<lparr>dW := 9, dB := 6\<rparr>,
         world4\<lparr>arrays := [NDArray 2 [[Fin 1, Fin 2]], zeros 1 2, NDArray 1 [[Fin 3]], zeros 1 1,
                           zeros 1 1, NDArray 2 [[Fin 6, Fin 12]], NDArray 1 [[Fin 4]],
                           NDArray 1 [[Fin 1], [Fin 2]], NDArray 1 [[Fin 3]],
                           NDArray 2 [[Fin 2, Fin 4]], NDArray 1 [[Fin 4], [Fin 8]]]\<rparr>)"
    by (simp add: layer1_def world4_def run_defs)
  show "fst (fc_backward_propagation 6 layer1 world4) = Inr 10"
    unfolding r6 by simp
  show "arr (snd (snd (fc_backward_propagation 6 layer1 world4))) 10
           \<noteq> transposed_product (arr world4 (W layer1)) (arr world4 6)"
    unfolding r6 by (simp add: transposed_product_def layer1_def world4_def run_defs)
  have f9: "fc_forward_propagation 9 layer1 world6 =
        (Inr 10, layer1\<lparr>Z := 10, previous_layer_activations := 9\<rparr>,
         push (NDArray 2 [[Fin 4, Fin 5]]) world6)"
    by (simp add: layer1_def world6_def run_defs)
  show "fst (fc_forward_propagation 9 layer1 world6) = Inr 10"
    unfolding f9 by simp
  show "fst (fc_backward_propagation 8 (fst (snd (fc_forward_propagation 9 layer1 world6)))
                (snd (snd (fc_forward_propagation 9 layer1 world6)))) = Inl ValueError"
    unfolding f9 by (simp add: layer1_def world6_def run_defs)
  show "arr (snd (snd (fc_backward_propagation 8 layer5 world4))) (W layer5)
       \<noteq> arr world4 (W layer5)"
    by (simp add: layer5_def world4_def run_defs)
qed

section \<open>The construction interface\<close>

lemma fc_width_snoc:
  assumes chain: "\<And>i s. 0 < i \<Longrightarrow> i < length ls \<Longrightarrow> ls ! i = FullyConnectedLayer s
                    \<Longrightarrow> N_p s = layer_N (ls ! (i - 1))"
    and ne: "ls \<noteq> []"
    and new: "\<And>s. l = FullyConnectedLayer s \<Longrightarrow> N_p s = layer_N (last ls)"
    and i: "0 < i" "i < length (ls @ [l])" "(ls @ [l]) ! i = FullyConnectedLayer s"
  shows "N_p s = layer_N ((ls @ [l]) ! (i - 1))"
proof (cases "i < length ls")
  case True
  then have "i - 1 < length ls" by simp
  with True show ?thesis
    using i chain[of i s] by (simp add: nth_append)
next
  case False
  then have "i = length ls" using i by simp
  then show ?thesis
    using i ne new[of s] by (simp add: nth_append last_conv_nth)
qed

lemma builder_invariant_snoc:
  assumes "builder_invariant self"
    and "layer_N l = n"
    and "\<And>s. l = FullyConnectedLayer s \<Longrightarrow> N_p s = prev_layer_size self"
  shows "builder_invariant (self\<lparr>layers := layers self @ [l], prev_layer_size := n\<rparr>)"
  unfolding builder_invariant_def
proof (intro conjI allI impI)
  show "layers (self\<lparr>layers := layers self @ [l], prev_layer_size := n\<rparr>) \<noteq> []"
    by simp
  show "\<exists>m a. layers (self\<lparr>layers := layers self @ [l], prev_layer_size := n\<rparr>) ! 0 = InputLayer m a"
    using assms(1) by (auto simp: builder_invariant_def nth_append)
  show "prev_layer_size (self\<lparr>layers := layers self @ [l], prev_layer_size := n\<rparr>)
        = layer_N (last (layers (self\<lparr>layers := layers self @ [l], prev_layer_size := n\<rparr>)))"
    using assms(2) by simp
next
  fix i s
  assume "0 < i \<and> i < length (layers (self\<lparr>layers := layers self @ [l], prev_layer_size := n\<rparr>))
          \<and> layers (self\<lparr>layers := layers self @ [l], prev_layer_size := n\<rparr>) ! i = FullyConnectedLayer s"
  then have i: "0 < i" "i < length (layers self @ [l])" "(layers self @ [l]) ! i = FullyConnectedLayer s"
    by simp_all
  have "N_p s = layer_N ((layers self @ [l]) ! (i - 1))"
  proof (rule fc_width_snoc[OF _ _ _ i])
    show "layers self \<noteq> []"
      using assms(1) by (simp add: builder_invariant_def)
    show "\<And>i s. 0 < i \<Longrightarrow> i < length (layers self) \<Longrightarrow> layers self ! i = FullyConnectedLayer s
            \<Longrightarrow> N_p s = layer_N (layers self ! (i - 1))"
      using assms(1) by (simp add: builder_invariant_def)
    show "\<And>s. l = FullyConnectedLayer s \<Longrightarrow> N_p s = layer_N (last (layers self))"
      using assms(1,3) by (simp add: builder_invariant_def)
  qed
  then show "N_p s = layer_N (layers (self\<lparr>layers := layers self @ [l], prev_layer_size := n\<rparr>) ! (i - 1))"
    by simp
qed

lemma built_builder_invariant: "built self w \<Longrightarrow> builder_invariant self"
proof (induction rule: built.induct)
  case (built_new input_size c c_prime sm_ce w0 self w)
  then show ?case
    by (auto simp: new_network_def new_input_layer_def alloc_def builder_invariant_def)
next
  case (built_fc self0 w0 layer_size gW gB self w)
  then show ?case
    by (auto simp: add_fc_layer_def new_fc_layer_def alloc_def Let_def
        intro!: builder_invariant_snoc split: prod.splits)
next
  case (built_sigmoid self0 w0 layer_size self w)
  then show ?case
    by (auto simp: add_sigmoid_layer_def new_sigmoid_layer_def alloc_def
        intro!: builder_invariant_snoc)
next
  case (built_relu self0 w0 layer_size self w)
  then show ?case
    by (auto simp: add_relu_layer_def new_relu_layer_def alloc_def
        intro!: builder_invariant_snoc)
next
  case (built_softmax self0 w0 layer_size self w)
  then show ?case
    by (auto simp: add_softmax_layer_def new_softmax_layer_def alloc_def
        intro!: builder_invariant_snoc)
qed

lemma built_fcI:
  "built self w \<Longrightarrow> built (fst (add_fc_layer n gW gB self w)) (snd (add_fc_layer n gW gB self w))"
  by (rule built_fc[where layer_size=n and gW=gW and gB=gB]) simp_all

lemma built_reluI:
  "built self w \<Longrightarrow> built (fst (add_relu_layer n self w)) (snd (add_relu_layer n self w))"
  by (rule built_relu[where layer_size=n]) simp_all

lemma built_sigmoidI:
  "built self w \<Longrightarrow> built (fst (add_sigmoid_layer n self w)) (snd (add_sigmoid_layer n self w))"
  by (rule built_sigmoid[where layer_size=n]) simp_all

lemma built_softmaxI:
  "built self w \<Longrightarrow> built (fst (add_softmax_layer n self w)) (snd (add_softmax_layer n self w))"
  by (rule built_softmax[where layer_size=n]) simp_all

lemma built_newI: "built (fst (new_network n c c' f w)) (snd (new_network n c c' f w))"
  by (rule built_new[where input_size=n and c=c and c_prime=c' and sm_ce=f and ?w0.0=w]) simp

lemma built_net2: "built (fst net2) (snd net2)"
  unfolding net2_def by (simp add: case_prod_beta built_sigmoidI built_newI)

lemma built_net3: "built (fst net3) (snd net3)"
  unfolding net3_def by (simp add: case_prod_beta built_fcI built_reluI built_newI)

lemma layers_net3:
  "layers (fst net3) =
     [InputLayer 2 3,
      FullyConnectedLayer \<lparr>N = 3, N_p = 2, W = 4, dW = 5, B = 6, dB = 7, Z = 8, dW_sum = 9,
                            dB_sum = 10, previous_layer_activations = 11\<rparr>,
      ReluLayer 5 12,
      FullyConnectedLayer \<lparr>N = 1, N_p = 5, W = 13, dW = 14, B = 15, dB = 16, Z = 17, dW_sum = 18,
                            dB_sum = 19, previous_layer_activations = 20\<rparr>]"
  by (simp add: net3_def world0_def run_defs)

text \<open>
  C9, as the code has it. After the constructor and any sequence of \<open>add\<close> calls the
  first layer is the input layer, \<open>prev_layer_size\<close> is the size of the last layer, and
  the declared input width \<open>N_p\<close> of every fully connected layer is the declared size of
  the layer before it, whatever the variant of that layer. A Sigmoid, ReLU or Softmax layer
  declares only its own size: the interface takes it from the caller for every value and
  compares it with nothing.
\<close>

theorem builder_input_widths:
  assumes "built self w"
  shows "layers self \<noteq> []
         \<and> (\<exists>n a. layers self ! 0 = InputLayer n a)
         \<and> prev_layer_size self = layer_N (last (layers self))
         \<and> (\<forall>i s. 0 < i \<and> i < length (layers self) \<and> layers self ! i = FullyConnectedLayer s
                \<longrightarrow> N_p s = layer_N (layers self ! (i - 1)))
         \<and> (\<forall>n. built (fst (add_sigmoid_layer n self w)) (snd (add_sigmoid_layer n self w))
                \<and> (\<exists>a. layers (fst (add_sigmoid_layer n self w)) = layers self @ [SigmoidLayer n a]))
         \<and> (\<forall>n. built (fst (add_relu_layer n self w)) (snd (add_relu_layer n self w))
                \<and> (\<exists>a. layers (fst (add_relu_layer n self w)) = layers self @ [ReluLayer n a]))
         \<and> (\<forall>n. built (fst (add_softmax_layer n self w)) (snd (add_softmax_layer n self w))
                \<and> (\<exists>a. layers (fst (add_softmax_layer n self w)) = layers self @ [SoftmaxLayer n a]))"
proof -
  have "builder_invariant self"
    using assms by (rule built_builder_invariant)
  moreover have "\<exists>a. layers (fst (add_sigmoid_layer n self w)) = layers self @ [SigmoidLayer n a]" for n
    by (simp add: add_sigmoid_layer_def new_sigmoid_layer_def alloc_def)
  moreover have "\<exists>a. layers (fst (add_relu_layer n self w)) = layers self @ [ReluLayer n a]" for n
    by (simp add: add_relu_layer_def new_relu_layer_def alloc_def)
  moreover have "\<exists>a. layers (fst (add_softmax_layer n self w)) = layers self @ [SoftmaxLayer n a]" for n
    by (simp add: add_softmax_layer_def new_softmax_layer_def alloc_def)
  ultimately show ?thesis
    using assms unfolding builder_invariant_def
    by (simp add: built_sigmoidI built_reluI built_softmaxI)
qed

theorem builder_input_widths_witness:
  "built (fst net3) (snd net3)
   \<and> layers (fst net3) \<noteq> []
   \<and> prev_layer_size (fst net3) = layer_N (last (layers (fst net3)))
   \<and> ((0::nat) < 3 \<and> 3 < length (layers (fst net3))
       \<and> layers (fst net3) ! 3 =
           FullyConnectedLayer \<lparr>N = 1, N_p = 5, W = 13, dW = 14, B = 15, dB = 16, Z = 17,
                                 dW_sum = 18, dB_sum = 19, previous_layer_activations = 20\<rparr>
       \<and> (5::nat) = layer_N (layers (fst net3) ! (3 - 1)))"
proof -
  let ?s = "\<lparr>N = 1, N_p = 5, W = 13, dW = 14, B = 15, dB = 16, Z = 17,
             dW_sum = 18, dB_sum = 19, previous_layer_activations = 20\<rparr>"
  note t = builder_input_widths[OF built_net3]
  have h: "(0::nat) < 3 \<and> 3 < length (layers (fst net3))
           \<and> layers (fst net3) ! 3 = FullyConnectedLayer ?s"
    by (simp add: layers_net3)
  have "N_p ?s = layer_N (layers (fst net3) ! (3 - 1))"
    using t h by blast
  then show ?thesis
    using t h built_net3 by simp
qed

text \<open>
  The interface does not make the sizes of neighbouring layers agree for every layer
  variant. It accepts a Sigmoid layer of size 3 directly after an input layer of size 2.
  It accepts the sizes 2, 3, 5, 1 for an input, a fully connected, a ReLU and a fully
  connected layer: the last layer then declares the input width 5, while the ReLU layer
  before it hands on the 3 rows it receives, and the forward pass ends in the shape check.
\<close>

theorem builder_accepts_mismatched_sizes:
  "built (fst net2) (snd net2)
   \<and> map layer_N (layers (fst net2)) = [2, 3]
   \<and> built (fst net3) (snd net3)
   \<and> map layer_N (layers (fst net3)) = [2, 3, 5, 1]
   \<and> fst (forward_pass 0 (fst net3) (snd net3)) = Inl SystemExit
   \<and> stdout (snd (snd (forward_pass 0 (fst net3) (snd net3))))
       = [PrintText ''mismatch between weight matrix columns and activation rows'', PrintInts 5 3]"
proof (intro conjI)
  show "built (fst net2) (snd net2)" by (rule built_net2)
  show "built (fst net3) (snd net3)" by (rule built_net3)
  show "map layer_N (layers (fst net2)) = [2, 3]"
    by (simp add: net2_def world0_def run_defs)
  show "map layer_N (layers (fst net3)) = [2, 3, 5, 1]"
    by (simp add: layers_net3)
  show "fst (forward_pass 0 (fst net3) (snd net3)) = Inl SystemExit"
    by (simp add: net3_def world0_def run_defs)
  show "stdout (snd (snd (forward_pass 0 (fst net3) (snd net3))))
       = [PrintText ''mismatch between weight matrix columns and activation rows'', PrintInts 5 3]"
    by (simp add: net3_def world0_def run_defs)
qed

section \<open>The backward pass with and without the Softmax layer\<close>

lemma backward_loop_softmax_last:
  assumes "ls \<noteq> []" and "last ls = SoftmaxLayer n a"
  shows "backward_loop [1..<length ls] g ls w = backward_loop [2..<length ls] g ls w"
proof (cases "2 \<le> length ls")
  case True
  then have "[1..<length ls] = 1 # [Suc 1..<length ls]"
    by (intro upt_conv_Cons) simp
  then have u: "[1..<length ls] = 1 # [2..<length ls]"
    by (simp add: numeral_2_eq_2)
  have l: "ls ! (length ls - 1) = SoftmaxLayer n a"
    using assms by (simp add: last_conv_nth)
  have i: "ls[length ls - 1 := SoftmaxLayer n a] = ls"
    using l list_update_id[of ls "length ls - 1"] by simp
  show ?thesis
    unfolding u using True l i by simp
next
  case False
  then show ?thesis by simp
qed

lemma backward_pass_modes:
  assumes "layers self \<noteq> []" and "last (layers self) = SoftmaxLayer n a"
  shows "backward_pass e (self\<lparr>is_SM_CE := True\<rparr>) w =
           (case backward_pass e (self\<lparr>is_SM_CE := False\<rparr>) w of
              (res, s, w') \<Rightarrow> (res, s\<lparr>is_SM_CE := True\<rparr>, w'))"
proof -
  have f: "first_upstream_gradient e (self\<lparr>is_SM_CE := b\<rparr>) w = first_upstream_gradient e self w" for b
    by (simp add: first_upstream_gradient_def cong: sum.case_cong)
  show ?thesis
  proof (cases "first_upstream_gradient e self w")
    case (Pair r w1)
    show ?thesis
    proof (cases r)
      case (Inl err)
      then show ?thesis
        using Pair by (simp add: backward_pass_def f)
    next
      case (Inr g)
      obtain r2 ls' w' where b: "backward_loop [2..<length (layers self)] g (layers self) w1 = (r2, ls', w')"
        by (cases "backward_loop [2..<length (layers self)] g (layers self) w1") auto
      have b1: "backward_loop [1..<length (layers self)] g (layers self) w1 = (r2, ls', w')"
        using backward_loop_softmax_last[OF assms, of g w1] b by simp
      show ?thesis
        using Pair Inr b b1 by (cases r2) (simp_all add: backward_pass_def f)
    qed
  qed
qed

text \<open>
  C4. Take a network whose flag for the combined Softmax and cross-entropy derivative is
  set and whose last layer is a Softmax layer; the cost derivative may be any, in
  particular \<open>cross_entropy_cost_prime_SM\<close>. The backward propagation of the Softmax layer
  returns the gradient it is given and changes nothing. The loop of the combined mode, which
  starts at the layer before the last, and the loop of the other mode, which starts at the
  last layer, have the same result from every gradient and world. So \<open>backward_pass\<close>
  ends with the same outcome, the same layers and the same arrays as it would with the flag
  cleared: every fully connected layer gets the same \<open>dW\<close>, \<open>dB\<close>, \<open>dW_sum\<close> and
  \<open>dB_sum\<close>.
\<close>

theorem backward_pass_combined_mode_equivalent:
  assumes "is_SM_CE self" and "layers self \<noteq> []" and "last (layers self) = SoftmaxLayer n a"
  shows "backward_propagation g (SoftmaxLayer n a) v = (Inr g, SoftmaxLayer n a, v)
         \<and> backward_loop [2..<length (layers self)] g (layers self) v
             = backward_loop [1..<length (layers self)] g (layers self) v
         \<and> backward_pass expected_output self w =
             (case backward_pass expected_output (self\<lparr>is_SM_CE := False\<rparr>) w of
                (res, s, w') \<Rightarrow> (res, s\<lparr>is_SM_CE := True\<rparr>, w'))"
proof -
  have "self\<lparr>is_SM_CE := True\<rparr> = self"
    using assms(1) by simp
  then show ?thesis
    using backward_pass_modes[OF assms(2,3), of expected_output w]
      backward_loop_softmax_last[OF assms(2,3), of g v]
    by simp
qed

lemma layers_net4:
  "layers (fst net4) =
     [InputLayer 2 3,
      FullyConnectedLayer \<lparr>N = 2, N_p = 2, W = 4, dW = 5, B = 6, dB = 7, Z = 8, dW_sum = 9,
                            dB_sum = 10, previous_layer_activations = 11\<rparr>,
      SoftmaxLayer 2 12]"
  "is_SM_CE (fst net4)" "cost_prime (fst net4) = cross_entropy_cost_prime_SM"
  "length (arrays (snd net4)) = 13"
  by (simp_all add: net4_def world0_def run_defs)

theorem backward_pass_combined_mode_equivalent_witness:
  "is_SM_CE (fst net4) \<and> layers (fst net4) \<noteq> [] \<and> last (layers (fst net4)) = SoftmaxLayer 2 12
   \<and> cost_prime (fst net4) = cross_entropy_cost_prime_SM
   \<and> backward_pass 1 (fst net4) (snd net4) =
       (case backward_pass 1 ((fst net4)\<lparr>is_SM_CE := False\<rparr>) (snd net4) of
          (res, s, w') \<Rightarrow> (res, s\<lparr>is_SM_CE := True\<rparr>, w'))
   \<and> fst (backward_pass 1 (fst net4) (snd net4)) = Inr ()
   \<and> arr (snd (snd (backward_pass 1 (fst net4) (snd net4)))) 10 = NDArray 1 [[Fin (- 1)], [Fin (- 1)]]"
proof -
  have h: "is_SM_CE (fst net4)" "layers (fst net4) \<noteq> []" "last (layers (fst net4)) = SoftmaxLayer 2 12"
    by (simp_all add: layers_net4)
  have r: "fst (backward_pass 1 (fst net4) (snd net4)) = Inr ()"
    "arr (snd (snd (backward_pass 1 (fst net4) (snd net4)))) 10 = NDArray 1 [[Fin (- 1)], [Fin (- 1)]]"
    by (simp_all add: net4_def world0_def run_defs)
  show ?thesis
    using backward_pass_combined_mode_equivalent[OF h] h r layers_net4(3) by simp
qed

end
